theory Spec2Isabelle
  imports Complex_Main
begin

section \<open>Floating-point values and tables\<close>

text \<open>
  The program computes on pandas tables of IEEE doubles. A double is modelled as an exact
  real, or the not-a-number element: \<open>None\<close> is NaN. Rounding and overflow are not
  modelled. The only source of an infinity in the code is a division by a price of zero
  inside \<open>pct_change\<close>; \<open>pct_change\<close> below sends it to NaN, and
  \<open>pct_change_ieee\<close> keeps it apart where the code reads it.
\<close>

type_synonym fl = "real option"

definition fsub :: "fl \<Rightarrow> fl \<Rightarrow> fl" where
  "fsub a b = (case (a, b) of (Some x, Some y) \<Rightarrow> Some (x - y) | _ \<Rightarrow> None)"

definition fmul :: "fl \<Rightarrow> fl \<Rightarrow> fl" where
  "fmul a b = (case (a, b) of (Some x, Some y) \<Rightarrow> Some (x * y) | _ \<Rightarrow> None)"

definition fdiv :: "fl \<Rightarrow> fl \<Rightarrow> fl" where
  "fdiv a b = (case (a, b) of
      (Some x, Some y) \<Rightarrow> (if y = 0 then None else Some (x / y))
    | _ \<Rightarrow> None)"


text \<open>\<open>fillna(v)\<close>: the result holds no NaN, so it is typed as a real.\<close>

definition fillna :: "real \<Rightarrow> fl \<Rightarrow> real" where
  "fillna v x = (case x of None \<Rightarrow> v | Some y \<Rightarrow> y)"

text \<open>
  A \<open>DataFrame\<close>: the date index (dates as day numbers), the column names, and the rows
  in index order. Dates and column names of a table are taken to be distinct, and every
  row has one cell per column.
\<close>

record frame =
  fr_index :: "int list"
  fr_columns :: "string list"
  fr_rows :: "fl list list"

text \<open>\<open>df[cols]\<close>, used only with \<open>cols\<close> among the columns of \<open>df\<close>.\<close>

definition select_columns :: "string list \<Rightarrow> frame \<Rightarrow> frame" where
  "select_columns cols f =
     f\<lparr>fr_columns := cols,
       fr_rows := map (\<lambda>r. map (\<lambda>c. case map_of (zip (fr_columns f) r) c of
                                        Some v \<Rightarrow> v | None \<Rightarrow> None) cols)
                      (fr_rows f)\<rparr>"

text \<open>\<open>df[c]\<close>, one column; a name that is not a column is read as NaN.\<close>

definition column :: "frame \<Rightarrow> string \<Rightarrow> fl list" where
  "column f c = map (\<lambda>r. case map_of (zip (fr_columns f) r) c of Some v \<Rightarrow> v | None \<Rightarrow> None)
                    (fr_rows f)"

text \<open>\<open>df.reindex(idx)\<close>: a date absent from \<open>df\<close> gives a row of NaN.\<close>

definition reindex :: "int list \<Rightarrow> frame \<Rightarrow> frame" where
  "reindex idx f =
     f\<lparr>fr_index := idx,
       fr_rows := map (\<lambda>d. case map_of (zip (fr_index f) (fr_rows f)) d of
                               Some r \<Rightarrow> r
                             | None \<Rightarrow> replicate (length (fr_columns f)) None) idx\<rparr>"

text \<open>\<open>fillna(method='ffill')\<close>, column by column: \<open>prev\<close> is the last value seen.\<close>

fun ffill_from :: "fl list \<Rightarrow> fl list list \<Rightarrow> fl list list" where
  "ffill_from prev [] = []"
| "ffill_from prev (r # rs) =
     (let r' = map2 (\<lambda>p x. case x of None \<Rightarrow> p | Some v \<Rightarrow> Some v) prev r
      in r' # ffill_from r' rs)"

definition ffill :: "fl list list \<Rightarrow> fl list list" where
  "ffill rows = (case rows of [] \<Rightarrow> [] | r # rs \<Rightarrow> ffill_from (map (\<lambda>_. None) r) rows)"

text \<open>
  \<open>pct_change(n)\<close>: pads NaN forward (pandas' default \<open>fill_method='pad'\<close>), then
  \<open>x[t] / x[t - n] - 1\<close>, NaN on the first \<open>n\<close> rows.
\<close>

definition pct_change :: "nat \<Rightarrow> fl list list \<Rightarrow> fl list list" where
  "pct_change n rows =
     (let p = ffill rows
      in map (\<lambda>t. if t < n then map (\<lambda>_. None) (p ! t)
                   else map2 (\<lambda>a b. fsub (fdiv a b) (Some 1)) (p ! t) (p ! (t - n)))
             [0..<length p])"

text \<open>
  The same with the infinities of a division by zero kept: on doubles \<open>x / 0 - 1\<close> is
  plus infinity for \<open>x > 0\<close>, minus infinity for \<open>x < 0\<close> and NaN for
  \<open>x = 0\<close> (the sign of a zero is not modelled).
\<close>

datatype ieee = Finite real | PosInf | NegInf | NotANumber

definition ieee_change :: "fl \<Rightarrow> fl \<Rightarrow> ieee" where
  "ieee_change a b = (case (a, b) of
      (Some x, Some y) \<Rightarrow>
        (if y \<noteq> 0 then Finite (x / y - 1)
         else if 0 < x then PosInf else if x < 0 then NegInf else NotANumber)
    | _ \<Rightarrow> NotANumber)"

definition pct_change_ieee :: "nat \<Rightarrow> fl list list \<Rightarrow> ieee list list" where
  "pct_change_ieee n rows =
     (let p = ffill rows
      in map (\<lambda>t. if t < n then map (\<lambda>_. NotANumber) (p ! t)
                   else map2 ieee_change (p ! t) (p ! (t - n)))
             [0..<length p])"

text \<open>Reading an infinity as NaN, and the comparison \<open>x > 0\<close> on doubles.\<close>

definition to_fl :: "ieee \<Rightarrow> fl" where
  "to_fl x = (case x of Finite r \<Rightarrow> Some r | _ \<Rightarrow> None)"

definition ieee_positive :: "ieee \<Rightarrow> bool" where
  "ieee_positive x = (case x of Finite r \<Rightarrow> 0 < r | PosInf \<Rightarrow> True | _ \<Rightarrow> False)"

text \<open>A table without a price of zero.\<close>

definition zero_free :: "fl list list \<Rightarrow> bool" where
  "zero_free rows \<longleftrightarrow> (\<forall>r \<in> set rows. Some 0 \<notin> set r)"

subsection \<open>Shapes of tables\<close>

text \<open>Every row of a list of rows has \<open>m\<close> cells.\<close>

definition uniform :: "nat \<Rightarrow> 'a list list \<Rightarrow> bool" where
  "uniform m rows \<longleftrightarrow> (\<forall>r \<in> set rows. length r = m)"

lemma uniform_Cons [simp]: "uniform m (r # rows) \<longleftrightarrow> length r = m \<and> uniform m rows"
  by (simp add: uniform_def)

lemma uniform_Nil [simp]: "uniform m []"
  by (simp add: uniform_def)

lemma uniform_nth: "uniform m rows \<Longrightarrow> t < length rows \<Longrightarrow> length (rows ! t) = m"
  by (simp add: uniform_def)


lemma length_ffill_from: "length (ffill_from prev rows) = length rows"
  by (induction rows arbitrary: prev) (simp_all add: Let_def)

lemma uniform_ffill_from:
  "length prev = m \<Longrightarrow> uniform m rows \<Longrightarrow> uniform m (ffill_from prev rows)"
  by (induction rows arbitrary: prev) (simp_all add: Let_def)

lemma length_ffill: "length (ffill rows) = length rows"
  by (simp add: ffill_def length_ffill_from Let_def split: list.splits)

lemma uniform_ffill: "uniform m rows \<Longrightarrow> uniform m (ffill rows)"
proof (cases rows)
  case Nil
  then show ?thesis by (simp add: ffill_def)
next
  case (Cons r rs)
  assume u: "uniform m rows"
  with Cons have "length (map (\<lambda>_. None :: fl) r) = m" by simp
  from uniform_ffill_from [OF this u] Cons show ?thesis by (simp only: ffill_def list.case)
qed

lemma select_columns_shape:
  "length (fr_rows (select_columns cols f)) = length (fr_rows f)"
  "uniform (length cols) (fr_rows (select_columns cols f))"
  by (simp_all add: select_columns_def uniform_def)

subsection \<open>Infinities of a division by zero\<close>

text \<open>
  \<open>pct_change\<close> is \<open>pct_change_ieee\<close> with the infinities read as NaN, and
  a table without a price of zero has no infinity among its changes.
\<close>

lemma to_fl_ieee_change: "to_fl (ieee_change a b) = fsub (fdiv a b) (Some 1)"
  by (simp add: to_fl_def ieee_change_def fsub_def fdiv_def split: option.splits)

lemma map2_to_fl:
  "map to_fl (map2 ieee_change xs ys) = map2 (\<lambda>a b. fsub (fdiv a b) (Some 1)) xs ys"
  by (auto simp: to_fl_ieee_change)

lemma to_fl_nan: "to_fl NotANumber = None"
  by (simp add: to_fl_def)

lemma pct_change_collapse: "pct_change n rows = map (map to_fl) (pct_change_ieee n rows)"
proof -
  have "(if t < n then map (\<lambda>_. None) (p ! t)
         else map2 (\<lambda>a b. fsub (fdiv a b) (Some 1)) (p ! t) (p ! (t - n)))
        = map to_fl (if t < n then map (\<lambda>_. NotANumber) (p ! t)
                     else map2 ieee_change (p ! t) (p ! (t - n)))" for t and p :: "fl list list"
    by (auto simp: to_fl_ieee_change to_fl_nan)
  then show ?thesis
    by (simp add: pct_change_def pct_change_ieee_def Let_def)
qed

lemma ffill_from_zero_free:
  "Some 0 \<notin> set prev \<Longrightarrow> zero_free rows \<Longrightarrow> zero_free (ffill_from prev rows)"
proof (induction rows arbitrary: prev)
  case Nil
  then show ?case by (simp add: zero_free_def)
next
  case (Cons r rs)
  let ?r' = "map2 (\<lambda>p x. case x of None \<Rightarrow> p | Some v \<Rightarrow> Some v) prev r"
  have r': "Some 0 \<notin> set ?r'"
  proof
    assume "Some 0 \<in> set ?r'"
    then obtain p x where px: "(p, x) \<in> set (zip prev r)"
      and eq: "(case x of None \<Rightarrow> p | Some v \<Rightarrow> Some v) = Some 0"
      by auto
    from px have "p \<in> set prev" and "x \<in> set r"
      by (auto dest: set_zip_leftD set_zip_rightD)
    with Cons.prems eq show False
      by (cases x) (auto simp: zero_free_def)
  qed
  from Cons.prems have rs: "zero_free rs" by (simp add: zero_free_def)
  from Cons.IH [OF r' rs] r' show ?case by (simp add: zero_free_def Let_def)
qed

lemma ffill_zero_free: "zero_free rows \<Longrightarrow> zero_free (ffill rows)"
proof (cases rows)
  case Nil
  then show ?thesis by (simp add: ffill_def zero_free_def)
next
  case (Cons r rs)
  assume z: "zero_free rows"
  have "Some 0 \<notin> set (map (\<lambda>_. None :: fl) r)" by auto
  from ffill_from_zero_free [OF this z] Cons show ?thesis by (simp only: ffill_def list.case)
qed

lemma ieee_change_finite:
  "b \<noteq> Some 0 \<Longrightarrow> ieee_change a b \<noteq> PosInf \<and> ieee_change a b \<noteq> NegInf"
  by (simp add: ieee_change_def split: option.splits)

lemma pct_change_ieee_finite:
  assumes "zero_free rows" and "r \<in> set (pct_change_ieee n rows)"
  shows "PosInf \<notin> set r \<and> NegInf \<notin> set r"
proof -
  let ?p = "ffill rows"
  have z: "zero_free ?p" by (rule ffill_zero_free [OF assms(1)])
  from assms(2) obtain t where t: "t < length ?p"
    and r: "r = (if t < n then map (\<lambda>_. NotANumber) (?p ! t)
                 else map2 ieee_change (?p ! t) (?p ! (t - n)))"
    by (auto simp: pct_change_ieee_def Let_def)
  show ?thesis
  proof (cases "t < n")
    case True
    with r show ?thesis by auto
  next
    case False
    have tn: "t - n < length ?p" using t by simp
    have cells: "\<And>b. b \<in> set (?p ! (t - n)) \<Longrightarrow> b \<noteq> Some 0"
      using z nth_mem [OF tn] by (auto simp: zero_free_def)
    have "x \<noteq> PosInf \<and> x \<noteq> NegInf" if "x \<in> set r" for x
    proof -
      from that False r obtain a b where "(a, b) \<in> set (zip (?p ! t) (?p ! (t - n)))"
        and x: "x = ieee_change a b"
        by auto
      then have "b \<noteq> Some 0" using cells by (auto dest: set_zip_rightD)
      with x show ?thesis by (simp add: ieee_change_finite)
    qed
    then show ?thesis by blast
  qed
qed

section \<open>The simulation engine (backtester.py)\<close>

datatype error = ZeroDivisionError

record backtester =
  prices :: frame
  target_weights :: frame
  transaction_cost :: real
  slippage :: real
  asset_list :: "string list"

text \<open>
  \<open>Backtester.__init__\<close>. \<open>slippage_bps=None\<close> reads \<open>config.SLIPPAGE_BPS\<close>,
  which config.py does not define, so the default 0 of \<open>getattr\<close> is taken.
\<close>

definition init_backtester :: "frame \<Rightarrow> frame \<Rightarrow> real \<Rightarrow> real option \<Rightarrow> backtester" where
  "init_backtester prices_df target_weights_df transaction_cost_bps slippage_bps =
     \<lparr>prices = prices_df,
      target_weights = target_weights_df,
      transaction_cost = transaction_cost_bps / 10000,
      slippage = (case slippage_bps of None \<Rightarrow> 0 | Some s \<Rightarrow> s) / 10000,
      asset_list = filter (\<lambda>c. c \<in> set (fr_columns prices_df)) (fr_columns target_weights_df)\<rparr>"

text \<open>
  \<open>returns = self.prices[self.asset_list].pct_change().fillna(0)\<close>. The returns are
  typed as reals: \<open>asset_returns\<close> is the table of the code on a price table that holds
  no zero (\<open>asset_returns_exact\<close> below). After a price of zero the code keeps an
  infinite return on the date, which \<open>asset_returns_ieee\<close> records and
  \<open>asset_returns\<close> does not.
\<close>

definition asset_returns :: "backtester \<Rightarrow> real list list" where
  "asset_returns bt =
     map (map (fillna 0)) (pct_change 1 (fr_rows (select_columns (asset_list bt) (prices bt))))"

definition asset_returns_ieee :: "backtester \<Rightarrow> ieee list list" where
  "asset_returns_ieee bt =
     map (map (\<lambda>x. case x of NotANumber \<Rightarrow> Finite 0 | _ \<Rightarrow> x))
         (pct_change_ieee 1 (fr_rows (select_columns (asset_list bt) (prices bt))))"

text \<open>\<open>weights = self.target_weights[self.asset_list].reindex(returns.index)\<close>\<close>

definition reindexed_weights :: "backtester \<Rightarrow> fl list list" where
  "reindexed_weights bt =
     fr_rows (reindex (fr_index (prices bt)) (select_columns (asset_list bt) (target_weights bt)))"

text \<open>
  Lines 52 to 59: the mask \<open>weights.isna().all(axis=1)\<close> marks every row that is missing
  as a whole; those rows are set to \<open>1.0 / len(self.asset_list)\<close> (a Python division,
  which raises on an empty asset list); then forward fill, then zero fill.
\<close>

definition initial_nan_mask :: "fl list list \<Rightarrow> bool list" where
  "initial_nan_mask weights = map (\<lambda>r. \<forall>x \<in> set r. x = None) weights"

definition prepare_weights :: "backtester \<Rightarrow> error + real list list" where
  "prepare_weights bt =
     (let weights = reindexed_weights bt;
          mask = initial_nan_mask weights
      in if (\<exists>m \<in> set mask. m) then
           (if length (asset_list bt) = 0 then Inl ZeroDivisionError
            else
              let equal_weight = 1 / real (length (asset_list bt));
                  weights' = map (\<lambda>(m, r). if m then map (\<lambda>_. Some equal_weight) r else r)
                                 (zip mask weights)
              in Inr (map (map (fillna 0)) (ffill weights')))
         else Inr (map (map (fillna 0)) (ffill weights)))"

text \<open>
  The loop of lines 67 to 84 over the dates, \<open>prev_weights\<close> being the state. Each step
  yields the pair (net return, turnover) of the date. Every date is assigned a value that
  is not NaN, so the closing \<open>fillna(0)\<close> of lines 87 and 88 changes nothing.
\<close>

fun backtest_loop :: "real \<Rightarrow> real \<Rightarrow> real list \<Rightarrow> (real list \<times> real list) list
    \<Rightarrow> (real \<times> real) list" where
  "backtest_loop tc sl prev_weights [] = []"
| "backtest_loop tc sl prev_weights ((target_w, ret) # rest) =
     (let trades = sum_list (map2 (\<lambda>w p. \<bar>w - p\<bar>) target_w prev_weights) / 2;
          cost = trades * tc;
          slippage_cost = trades * sl;
          gross_return = sum_list (map2 (\<lambda>p r. p * r) prev_weights ret);
          net_return = gross_return - cost - slippage_cost
      in (net_return, trades) # backtest_loop tc sl target_w rest)"

text \<open>\<open>run_backtest\<close>: the pair of \<open>self.results\<close> and \<open>self.turnover\<close>.\<close>

definition run_backtest :: "backtester \<Rightarrow> error + (real list \<times> real list)" where
  "run_backtest bt =
     (case prepare_weights bt of
        Inl e \<Rightarrow> Inl e
      | Inr weights \<Rightarrow>
          let out = backtest_loop (transaction_cost bt) (slippage bt)
                      (replicate (length (asset_list bt)) 0)
                      (zip weights (asset_returns bt))
          in Inr (map fst out, map snd out))"

text \<open>
  The weights held going into date \<open>t\<close>: all zero on the first date, the target weights
  of the date before on any other.
\<close>

definition held_weights :: "nat \<Rightarrow> real list list \<Rightarrow> nat \<Rightarrow> real list" where
  "held_weights n weights t = (if t = 0 then replicate n 0 else weights ! (t - 1))"

text \<open>The gross return of date \<open>t\<close>: held weights times the asset returns of the date.\<close>

definition gross_return :: "backtester \<Rightarrow> real list list \<Rightarrow> nat \<Rightarrow> real" where
  "gross_return bt weights t =
     sum_list (map2 (\<lambda>p r. p * r) (held_weights (length (asset_list bt)) weights t)
                    (asset_returns bt ! t))"

text \<open>Half the L1 distance between the target weights of date \<open>t\<close> and the held weights.\<close>

definition half_l1_turnover :: "backtester \<Rightarrow> real list list \<Rightarrow> nat \<Rightarrow> real" where
  "half_l1_turnover bt weights t =
     0.5 * sum_list (map2 (\<lambda>w p. \<bar>w - p\<bar>) (weights ! t)
                          (held_weights (length (asset_list bt)) weights t))"

text \<open>A three-day, two-asset run used to exercise the theorems.\<close>

definition ex_prices :: frame where
  "ex_prices = \<lparr>fr_index = [0, 1, 2], fr_columns = [''A'', ''B''],
     fr_rows = [[Some 100, Some 50], [Some 110, Some 50], [Some 121, Some 55]]\<rparr>"

definition ex_weights :: frame where
  "ex_weights = \<lparr>fr_index = [0, 1, 2], fr_columns = [''A'', ''B'', ''Cash''],
     fr_rows = [[Some 1, Some 0, Some 0], [Some 0, Some 1, Some 0],
                [Some 0, Some 1, Some 0]]\<rparr>"

text \<open>The same run with a first target row that leaves a quarter in cash.\<close>

definition ex_weights_partial :: frame where
  "ex_weights_partial = \<lparr>fr_index = [0, 1, 2], fr_columns = [''A'', ''B'', ''Cash''],
     fr_rows = [[Some (1 / 2), Some (1 / 4), Some (1 / 4)], [Some 0, Some 1, Some 0],
                [Some 0, Some 1, Some 0]]\<rparr>"

subsection \<open>The loop, date by date\<close>

lemma asset_returns_exact:
  assumes "zero_free (fr_rows (select_columns (asset_list bt) (prices bt)))"
  shows "asset_returns_ieee bt = map (map Finite) (asset_returns bt)"
proof -
  let ?rows = "fr_rows (select_columns (asset_list bt) (prices bt))"
  have cell: "(case x of NotANumber \<Rightarrow> Finite 0 | _ \<Rightarrow> x) = Finite (fillna 0 (to_fl x))"
    if "r \<in> set (pct_change_ieee 1 ?rows)" and "x \<in> set r" for r x
    using pct_change_ieee_finite [OF assms that(1)] that(2)
    by (cases x) (auto simp: fillna_def to_fl_def)
  show ?thesis
    unfolding asset_returns_ieee_def asset_returns_def pct_change_collapse map_map
    by (rule map_cong [OF refl]) (simp add: cell)
qed

lemma length_backtest_loop: "length (backtest_loop tc sl prev rows) = length rows"
  by (induction rows arbitrary: prev) (auto simp: Let_def)

lemma backtest_loop_nth:
  "t < length rows \<Longrightarrow>
   backtest_loop tc sl prev rows ! t =
     (let held = (if t = 0 then prev else fst (rows ! (t - 1)));
          trades = sum_list (map2 (\<lambda>w p. \<bar>w - p\<bar>) (fst (rows ! t)) held) / 2
      in (sum_list (map2 (\<lambda>p r. p * r) held (snd (rows ! t))) - trades * tc - trades * sl,
          trades))"
proof (induction rows arbitrary: prev t)
  case Nil
  then show ?case by simp
next
  case (Cons row rows)
  obtain w r where row: "row = (w, r)" by (cases row)
  show ?case
  proof (cases t)
    case 0
    then show ?thesis by (simp add: row Let_def)
  next
    case (Suc k)
    with Cons.prems have k: "k < length rows" by simp
    show ?thesis
      using Cons.IH [OF k, of w] Suc row
      by (cases k) (simp_all add: Let_def)
  qed
qed

text \<open>What \<open>run_backtest\<close> records on date \<open>t\<close>, in terms of the prepared weights.\<close>

lemma run_backtest_lengths:
  assumes "prepare_weights bt = Inr weights"
    and "run_backtest bt = Inr (results, turnover)"
  shows "length results = min (length weights) (length (asset_returns bt))"
    and "length turnover = length results"
  using assms by (auto simp: run_backtest_def Let_def length_backtest_loop)

lemma run_backtest_nth:
  assumes "prepare_weights bt = Inr weights"
    and "run_backtest bt = Inr (results, turnover)"
    and "t < length results"
  shows "turnover ! t = half_l1_turnover bt weights t"
    and "results ! t = gross_return bt weights t
           - turnover ! t * transaction_cost bt - turnover ! t * slippage bt"
proof -
  let ?rows = "zip weights (asset_returns bt)"
  let ?out = "backtest_loop (transaction_cost bt) (slippage bt)
                (replicate (length (asset_list bt)) 0) ?rows"
  from assms(1,2) have res: "results = map fst ?out" and tur: "turnover = map snd ?out"
    by (auto simp: run_backtest_def Let_def)
  from assms(3) res have t: "t < length ?rows"
    by (simp add: length_backtest_loop)
  then have tw: "t < length weights" and tr: "t < length (asset_returns bt)"
    by simp_all
  have prev: "t \<noteq> 0 \<Longrightarrow> fst (?rows ! (t - 1)) = weights ! (t - 1)"
    using tw tr by simp
  have out: "?out ! t =
     (gross_return bt weights t
        - half_l1_turnover bt weights t * transaction_cost bt
        - half_l1_turnover bt weights t * slippage bt,
      half_l1_turnover bt weights t)"
    using backtest_loop_nth [OF t, of "transaction_cost bt" "slippage bt"
        "replicate (length (asset_list bt)) 0"] tw tr prev
    by (simp add: Let_def gross_return_def half_l1_turnover_def held_weights_def)
  show "turnover ! t = half_l1_turnover bt weights t"
    using out t by (simp add: tur length_backtest_loop)
  then show "results ! t = gross_return bt weights t
           - turnover ! t * transaction_cost bt - turnover ! t * slippage bt"
    using out t by (simp add: res length_backtest_loop)
qed

lemma half_l1_turnover_nonneg: "0 \<le> half_l1_turnover bt weights t"
  unfolding half_l1_turnover_def
  by (intro mult_nonneg_nonneg sum_list_nonneg) (auto simp: in_set_zip)

lemma sum_list_abs_diff_same: "sum_list (map2 (\<lambda>w p. \<bar>w - p\<bar>) xs xs) = (0::real)"
  by (induction xs) auto

lemma ex_prepare_weights:
  "prepare_weights (init_backtester ex_prices ex_weights c s) = Inr [[1, 0], [0, 1], [0, 1]]"
  by (simp add: prepare_weights_def init_backtester_def ex_prices_def ex_weights_def
      reindexed_weights_def initial_nan_mask_def reindex_def select_columns_def ffill_def
      fillna_def Let_def)

lemma ex_asset_returns:
  "asset_returns (init_backtester ex_prices ex_weights c s)
     = [[0, 0], [1 / 10, 0], [1 / 10, 1 / 10]]"
  by (simp add: asset_returns_def init_backtester_def ex_prices_def ex_weights_def
      pct_change_def select_columns_def ffill_def fillna_def fsub_def fdiv_def Let_def upt_rec)

lemma ex_backtester_fields:
  "asset_list (init_backtester ex_prices ex_weights c s) = [''A'', ''B'']"
  "transaction_cost (init_backtester ex_prices ex_weights c s) = c / 10000"
  "slippage (init_backtester ex_prices ex_weights c None) = 0"
  by (simp_all add: init_backtester_def ex_prices_def ex_weights_def)

lemma ex_run_backtest:
  "run_backtest (init_backtester ex_prices ex_weights 5 None)
     = Inr ([- (1 / 4000), 199 / 2000, 1 / 10], [1 / 2, 1, 0])"
  by (simp add: run_backtest_def ex_prepare_weights ex_asset_returns ex_backtester_fields
      Let_def)

lemma ex_run_backtest_free:
  "run_backtest (init_backtester ex_prices ex_weights 0 None)
     = Inr ([0, 1 / 10, 1 / 10], [1 / 2, 1, 0])"
  by (simp add: run_backtest_def ex_prepare_weights ex_asset_returns ex_backtester_fields
      Let_def)

lemma sum_list_zero_weights: "sum_list (map2 (\<lambda>p r. p * r) (replicate n 0) rs) = (0::real)"
proof (induction n arbitrary: rs)
  case 0
  then show ?case by simp
next
  case (Suc n)
  then show ?case by (cases rs) simp_all
qed

subsection \<open>Net return, turnover and the first day\<close>

text \<open>
  C3. On every date of a run of \<open>run_backtest\<close> the recorded net return is the gross
  return (the weights held from the day before times the asset returns of the day) minus
  turnover times the transaction cost rate minus turnover times the slippage rate. With
  both rates 0 the net return series is the gross return series.
\<close>

theorem net_return_decomposition:
  assumes "prepare_weights bt = Inr weights"
    and "run_backtest bt = Inr (results, turnover)"
    and "t < length results"
  shows "results ! t = gross_return bt weights t
             - turnover ! t * transaction_cost bt - turnover ! t * slippage bt
         \<and> (transaction_cost bt = 0 \<and> slippage bt = 0
              \<longrightarrow> results = map (gross_return bt weights) [0..<length results])"
proof
  show "results ! t = gross_return bt weights t
             - turnover ! t * transaction_cost bt - turnover ! t * slippage bt"
    using run_backtest_nth(2) [OF assms] .
next
  show "transaction_cost bt = 0 \<and> slippage bt = 0
          \<longrightarrow> results = map (gross_return bt weights) [0..<length results]"
  proof
    assume zero: "transaction_cost bt = 0 \<and> slippage bt = 0"
    show "results = map (gross_return bt weights) [0..<length results]"
    proof (rule nth_equalityI)
      show "length results = length (map (gross_return bt weights) [0..<length results])"
        by simp
    next
      fix i assume i: "i < length results"
      from run_backtest_nth(2) [OF assms(1,2) i] zero
      show "results ! i = map (gross_return bt weights) [0..<length results] ! i"
        using i by simp
    qed
  qed
qed

theorem net_return_decomposition_witness:
  "run_backtest (init_backtester ex_prices ex_weights 5 None)
     = Inr ([- (1 / 4000), 199 / 2000, 1 / 10], [1 / 2, 1, 0])
   \<and> [- (1 / 4000), 199 / 2000, 1 / 10 :: real] ! 1
       = gross_return (init_backtester ex_prices ex_weights 5 None) [[1, 0], [0, 1], [0, 1]] 1
         - [1 / 2, 1, 0] ! 1 * transaction_cost (init_backtester ex_prices ex_weights 5 None)
         - [1 / 2, 1, 0] ! 1 * slippage (init_backtester ex_prices ex_weights 5 None)
   \<and> transaction_cost (init_backtester ex_prices ex_weights 0 None) = 0
   \<and> slippage (init_backtester ex_prices ex_weights 0 None) = 0
   \<and> [0, 1 / 10, 1 / 10]
       = map (gross_return (init_backtester ex_prices ex_weights 0 None)
                [[1, 0], [0, 1], [0, 1]]) [0..<length [0, 1 / 10, 1 / 10 :: real]]"
proof -
  have zero: "transaction_cost (init_backtester ex_prices ex_weights 0 None) = 0
              \<and> slippage (init_backtester ex_prices ex_weights 0 None) = 0"
    by (simp add: ex_backtester_fields)
  have day: "(1::nat) < length [- (1 / 4000), 199 / 2000, 1 / 10 :: real]"
    and day0: "(0::nat) < length [0, 1 / 10, 1 / 10 :: real]"
    by simp_all
  show ?thesis
    using net_return_decomposition [OF ex_prepare_weights ex_run_backtest day]
      net_return_decomposition [OF ex_prepare_weights ex_run_backtest_free day0]
      zero ex_run_backtest
    by blast
qed

text \<open>
  C4. On every date of a run the recorded turnover is 0.5 times the sum of the absolute
  differences between the target weights of the date and the weights held before; so it is
  never negative, and it is 0 on a day whose target weights equal the held weights.
\<close>

theorem turnover_is_half_l1:
  assumes "prepare_weights bt = Inr weights"
    and "run_backtest bt = Inr (results, turnover)"
    and "t < length turnover"
  shows "turnover ! t
           = 0.5 * sum_list (map2 (\<lambda>w p. \<bar>w - p\<bar>) (weights ! t)
                                  (held_weights (length (asset_list bt)) weights t))
         \<and> 0 \<le> turnover ! t
         \<and> (weights ! t = held_weights (length (asset_list bt)) weights t
              \<longrightarrow> turnover ! t = 0)"
proof -
  from assms have t: "t < length results"
    using run_backtest_lengths(2) [OF assms(1,2)] by simp
  have eq: "turnover ! t = half_l1_turnover bt weights t"
    using run_backtest_nth(1) [OF assms(1,2) t] .
  have same: "weights ! t = held_weights (length (asset_list bt)) weights t
                \<Longrightarrow> half_l1_turnover bt weights t = 0"
    by (simp add: half_l1_turnover_def sum_list_abs_diff_same)
  have form: "turnover ! t
           = 0.5 * sum_list (map2 (\<lambda>w p. \<bar>w - p\<bar>) (weights ! t)
                                  (held_weights (length (asset_list bt)) weights t))"
    using eq by (simp add: half_l1_turnover_def)
  have nonneg: "0 \<le> turnover ! t"
    using eq half_l1_turnover_nonneg [of bt weights t] by simp
  have zero: "weights ! t = held_weights (length (asset_list bt)) weights t
                \<longrightarrow> turnover ! t = 0"
    using eq same by simp
  from form nonneg zero show ?thesis by blast
qed

theorem turnover_is_half_l1_witness:
  "run_backtest (init_backtester ex_prices ex_weights 5 None)
     = Inr ([- (1 / 4000), 199 / 2000, 1 / 10], [1 / 2, 1, 0])
   \<and> [[1, 0], [0, 1], [0, 1 :: real]] ! 2
       = held_weights (length (asset_list (init_backtester ex_prices ex_weights 5 None)))
           [[1, 0], [0, 1], [0, 1]] 2
   \<and> [1 / 2, 1, 0 :: real] ! 2 = 0
   \<and> [1 / 2, 1, 0 :: real] ! 1
       = 0.5 * sum_list (map2 (\<lambda>w p. \<bar>w - p\<bar>) [0, 1] [1, 0])"
proof -
  have same: "[[1, 0], [0, 1], [0, 1 :: real]] ! 2
       = held_weights (length (asset_list (init_backtester ex_prices ex_weights 5 None)))
           [[1, 0], [0, 1], [0, 1]] 2"
    by (simp add: held_weights_def)
  have day: "(2::nat) < length [1 / 2, 1, 0 :: real]" by simp
  have unchanged: "[1 / 2, 1, 0 :: real] ! 2 = 0"
    using turnover_is_half_l1 [OF ex_prepare_weights ex_run_backtest day] same by blast
  have "[1 / 2, 1, 0 :: real] ! 1
       = 0.5 * sum_list (map2 (\<lambda>w p. \<bar>w - p\<bar>) [0, 1] [1, 0])"
    by simp
  with same unchanged ex_run_backtest show ?thesis by blast
qed

subsection \<open>The first date of a run\<close>

text \<open>
  Every row of the prepared weights has one cell per asset; the distance of the first
  target row from the all-zero position is the sum of its absolute values.
\<close>

lemma reindexed_weights_uniform:
  "uniform (length (asset_list bt)) (reindexed_weights bt)"
proof -
  let ?sel = "select_columns (asset_list bt) (target_weights bt)"
  have u: "uniform (length (asset_list bt)) (fr_rows ?sel)"
    by (rule select_columns_shape(2))
  have cols: "fr_columns ?sel = asset_list bt"
    by (simp add: select_columns_def)
  have "length r = length (asset_list bt)"
    if "r \<in> set (fr_rows (reindex (fr_index (prices bt)) ?sel))" for r
  proof -
    from that obtain d where
      r: "r = (case map_of (zip (fr_index ?sel) (fr_rows ?sel)) d of
                 Some r \<Rightarrow> r | None \<Rightarrow> replicate (length (fr_columns ?sel)) None)"
      by (auto simp: reindex_def)
    show ?thesis
    proof (cases "map_of (zip (fr_index ?sel) (fr_rows ?sel)) d")
      case None
      then show ?thesis using r cols by simp
    next
      case (Some r')
      then have "r' \<in> set (fr_rows ?sel)"
        by (meson in_set_zipE map_of_SomeD)
      with u Some r show ?thesis by (simp add: uniform_def)
    qed
  qed
  then show ?thesis
    by (simp add: reindexed_weights_def uniform_def)
qed

lemma uniform_map_rows: "uniform m rows \<Longrightarrow> uniform m (map (map f) rows)"
  by (simp add: uniform_def)

lemma prepare_weights_uniform:
  assumes "prepare_weights bt = Inr weights"
  shows "uniform (length (asset_list bt)) weights"
proof -
  let ?n = "length (asset_list bt)"
  let ?w = "reindexed_weights bt"
  let ?e = "1 / real ?n"
  let ?w' = "map (\<lambda>(m, r). if m then map (\<lambda>_. Some ?e) r else r)
               (zip (initial_nan_mask ?w) ?w)"
  have u: "uniform ?n ?w" by (rule reindexed_weights_uniform)
  have u': "uniform ?n ?w'"
    using u by (auto simp: uniform_def dest: set_zip_rightD)
  from assms have "weights = map (map (fillna 0)) (ffill ?w')
                   \<or> weights = map (map (fillna 0)) (ffill ?w)"
    by (auto simp: prepare_weights_def Let_def split: if_splits)
  then show ?thesis
    using uniform_map_rows [OF uniform_ffill [OF u]] uniform_map_rows [OF uniform_ffill [OF u']]
    by auto
qed

lemma sum_list_abs_from_zero:
  "length ws = n \<Longrightarrow>
   sum_list (map2 (\<lambda>w p. \<bar>w - p\<bar>) ws (replicate n 0)) = sum_list (map (\<lambda>w. \<bar>w\<bar>) ws :: real list)"
proof (induction ws arbitrary: n)
  case Nil
  then show ?case by simp
next
  case (Cons w ws)
  then show ?case by (cases n) simp_all
qed

lemma ex_partial_prepare_weights:
  "prepare_weights (init_backtester ex_prices ex_weights_partial 5 None)
     = Inr [[1 / 2, 1 / 4], [0, 1], [0, 1]]"
  by (simp add: prepare_weights_def init_backtester_def ex_prices_def ex_weights_partial_def
      reindexed_weights_def initial_nan_mask_def reindex_def select_columns_def ffill_def
      fillna_def Let_def)

lemma ex_partial_fields:
  "asset_list (init_backtester ex_prices ex_weights_partial c s) = [''A'', ''B'']"
  "transaction_cost (init_backtester ex_prices ex_weights_partial c s) = c / 10000"
  "slippage (init_backtester ex_prices ex_weights_partial c None) = 0"
  "prices (init_backtester ex_prices ex_weights_partial c s) = ex_prices"
  by (simp_all add: init_backtester_def ex_prices_def ex_weights_partial_def)

lemma ex_partial_asset_returns:
  "asset_returns (init_backtester ex_prices ex_weights_partial c s)
     = [[0, 0], [1 / 10, 0], [1 / 10, 1 / 10]]"
  by (simp add: asset_returns_def init_backtester_def ex_prices_def ex_weights_partial_def
      pct_change_def select_columns_def ffill_def fillna_def fsub_def fdiv_def Let_def upt_rec)

lemma ex_partial_run_backtest:
  "run_backtest (init_backtester ex_prices ex_weights_partial 5 None)
     = Inr ([- (3 / 16000), 159 / 3200, 1 / 10], [3 / 8, 5 / 8, 0])"
  by (simp add: run_backtest_def ex_partial_prepare_weights ex_partial_asset_returns
      ex_partial_fields Let_def)

lemma ex_run_backtest_rebate:
  "run_backtest (init_backtester ex_prices ex_weights (- 5) None)
     = Inr ([1 / 4000, 201 / 2000, 1 / 10], [1 / 2, 1, 0])"
  by (simp add: run_backtest_def ex_prepare_weights ex_asset_returns ex_backtester_fields
      Let_def)

text \<open>
  C9, as the claim states it, fails: the constructor takes any number of basis points, and
  with a transaction cost of -5 bps (a rebate) the net return of the first date is
  1/4000, which is positive.
\<close>

theorem negative_rate_pays_on_first_day:
  "run_backtest (init_backtester ex_prices ex_weights (- 5) None)
     = Inr ([1 / 4000, 201 / 2000, 1 / 10], [1 / 2, 1, 0])
   \<and> transaction_cost (init_backtester ex_prices ex_weights (- 5) None) = - (1 / 2000)
   \<and> (0::real) < [1 / 4000, 201 / 2000, 1 / 10] ! 0"
  by (simp add: ex_run_backtest_rebate ex_backtester_fields)

text \<open>
  C9, amended. The position held going into the first date is all zero: the gross return
  of that date is 0, its turnover is half the sum of the absolute target weights of the
  date (the distance from the all-zero position), and the net return is minus that
  turnover times the sum of the transaction cost rate and the slippage rate. When neither
  rate is negative, the net return of the first date is at most 0.
\<close>

theorem first_day_is_pure_cost:
  assumes "prepare_weights bt = Inr weights"
    and "run_backtest bt = Inr (results, turnover)"
    and "results \<noteq> []"
  shows "gross_return bt weights 0 = 0
         \<and> turnover ! 0 = 0.5 * sum_list (map (\<lambda>w. \<bar>w\<bar>) (weights ! 0))
         \<and> results ! 0 = - (turnover ! 0 * (transaction_cost bt + slippage bt))
         \<and> (0 \<le> transaction_cost bt \<and> 0 \<le> slippage bt \<longrightarrow> results ! 0 \<le> 0)"
proof -
  from assms(3) have t: "0 < length results" by simp
  have tw: "0 < length weights"
    using run_backtest_lengths(1) [OF assms(1,2)] t by simp
  have len: "length (weights ! 0) = length (asset_list bt)"
    using uniform_nth [OF prepare_weights_uniform [OF assms(1)] tw] .
  have gross: "gross_return bt weights 0 = 0"
    by (simp add: gross_return_def held_weights_def sum_list_zero_weights)
  have turnover: "turnover ! 0 = 0.5 * sum_list (map (\<lambda>w. \<bar>w\<bar>) (weights ! 0))"
    using run_backtest_nth(1) [OF assms(1,2) t] sum_list_abs_from_zero [OF len]
    by (simp add: half_l1_turnover_def held_weights_def)
  have net: "results ! 0 = - (turnover ! 0 * (transaction_cost bt + slippage bt))"
    using run_backtest_nth(2) [OF assms(1,2) t] gross by (simp add: algebra_simps)
  have turn: "0 \<le> turnover ! 0"
    using run_backtest_nth(1) [OF assms(1,2) t] half_l1_turnover_nonneg [of bt weights 0]
    by simp
  have "0 \<le> transaction_cost bt \<and> 0 \<le> slippage bt \<longrightarrow> results ! 0 \<le> 0"
  proof
    assume "0 \<le> transaction_cost bt \<and> 0 \<le> slippage bt"
    then have "0 \<le> turnover ! 0 * (transaction_cost bt + slippage bt)"
      using turn by (intro mult_nonneg_nonneg) simp_all
    with net show "results ! 0 \<le> 0" by simp
  qed
  with gross net turnover show ?thesis by simp
qed

theorem first_day_is_pure_cost_witness:
  "run_backtest (init_backtester ex_prices ex_weights_partial 5 None)
     = Inr ([- (3 / 16000), 159 / 3200, 1 / 10], [3 / 8, 5 / 8, 0])
   \<and> 0 \<le> transaction_cost (init_backtester ex_prices ex_weights_partial 5 None)
   \<and> 0 \<le> slippage (init_backtester ex_prices ex_weights_partial 5 None)
   \<and> gross_return (init_backtester ex_prices ex_weights_partial 5 None)
        [[1 / 2, 1 / 4], [0, 1], [0, 1]] 0 = 0
   \<and> [3 / 8, 5 / 8, 0 :: real] ! 0
        = 0.5 * sum_list (map (\<lambda>w. \<bar>w\<bar>) ([[1 / 2, 1 / 4], [0, 1], [0, 1]] ! 0))
   \<and> [- (3 / 16000), 159 / 3200, 1 / 10 :: real] ! 0 = - (3 / 8 * (5 / 10000 + 0))
   \<and> [- (3 / 16000), 159 / 3200, 1 / 10 :: real] ! 0 \<le> 0"
proof -
  have rates: "0 \<le> transaction_cost (init_backtester ex_prices ex_weights_partial 5 None)
               \<and> 0 \<le> slippage (init_backtester ex_prices ex_weights_partial 5 None)"
    by (simp add: ex_partial_fields)
  have ne: "[- (3 / 16000), 159 / 3200, 1 / 10 :: real] \<noteq> []" by simp
  note first = first_day_is_pure_cost [OF ex_partial_prepare_weights ex_partial_run_backtest ne]
  from first have gross:
    "gross_return (init_backtester ex_prices ex_weights_partial 5 None)
        [[1 / 2, 1 / 4], [0, 1], [0, 1]] 0 = 0"
    by blast
  from first have turn:
    "[3 / 8, 5 / 8, 0 :: real] ! 0
        = 0.5 * sum_list (map (\<lambda>w. \<bar>w\<bar>) ([[1 / 2, 1 / 4], [0, 1], [0, 1]] ! 0))"
    by blast
  from first rates have neg: "[- (3 / 16000), 159 / 3200, 1 / 10 :: real] ! 0 \<le> 0"
    by blast
  have "[- (3 / 16000), 159 / 3200, 1 / 10 :: real] ! 0 = - (3 / 8 * (5 / 10000 + 0))"
    by simp
  with rates gross turn neg ex_partial_run_backtest show ?thesis by blast
qed

subsection \<open>Gaps in the target weights\<close>

text \<open>
  The policy as the comments of lines 50 to 58 and the specification word it: only the
  leading rows that are missing as a whole get the equal weight, every other gap is filled
  forward, and what is left is filled with zero. This second definition follows those
  words; \<open>prepare_weights\<close> above follows the code.
\<close>

definition leading_nan_mask :: "fl list list \<Rightarrow> bool list" where
  "leading_nan_mask weights =
     (let k = length (takeWhile (\<lambda>r. \<forall>x \<in> set r. x = None) weights)
      in map (\<lambda>i. i < k) [0..<length weights])"

definition prepare_weights_leading_only :: "backtester \<Rightarrow> error + real list list" where
  "prepare_weights_leading_only bt =
     (let weights = reindexed_weights bt;
          mask = leading_nan_mask weights
      in if (\<exists>m \<in> set mask. m) then
           (if length (asset_list bt) = 0 then Inl ZeroDivisionError
            else
              let equal_weight = 1 / real (length (asset_list bt));
                  weights' = map (\<lambda>(m, r). if m then map (\<lambda>_. Some equal_weight) r else r)
                                 (zip mask weights)
              in Inr (map (map (fillna 0)) (ffill weights')))
         else Inr (map (map (fillna 0)) (ffill weights)))"

text \<open>Target weights given on days 0 and 2 only.\<close>

definition ex_gap_weights :: frame where
  "ex_gap_weights = \<lparr>fr_index = [0, 2], fr_columns = [''A'', ''B'', ''Cash''],
     fr_rows = [[Some 1, Some 0, Some 0], [Some 0, Some 1, Some 0]]\<rparr>"

text \<open>
  C5. The code puts the equal weight on every row that is missing as a whole, not only on
  the leading ones: with target weights on days 0 and 2 and prices on days 0, 1 and 2, the
  row of day 1 becomes (1/2, 1/2), where filling forward gives (1, 0).
\<close>

theorem middle_gap_gets_equal_weight:
  "prepare_weights (init_backtester ex_prices ex_gap_weights 5 None)
     = Inr [[1, 0], [1 / 2, 1 / 2], [0, 1]]
   \<and> prepare_weights_leading_only (init_backtester ex_prices ex_gap_weights 5 None)
     = Inr [[1, 0], [1, 0], [0, 1]]"
  by (simp add: prepare_weights_def prepare_weights_leading_only_def init_backtester_def
      ex_prices_def ex_gap_weights_def reindexed_weights_def initial_nan_mask_def
      leading_nan_mask_def reindex_def select_columns_def ffill_def fillna_def Let_def
      upt_conv_Cons)

section \<open>The metrics engine (calculate_performance_metrics)\<close>

text \<open>
  \<open>self.results\<close> is a series: the dates (day numbers) with the net return of each.
  The entries of the metrics dictionary modelled here are CAGR, cumulative return,
  annualised volatility, Sharpe ratio, maximum drawdown and Calmar ratio; the other
  entries are computed independently of these.
\<close>

type_synonym series = "(int \<times> real) list"

fun cumprod :: "real \<Rightarrow> real list \<Rightarrow> real list" where
  "cumprod acc [] = []"
| "cumprod acc (x # xs) = (acc * x) # cumprod (acc * x) xs"

fun cummax_from :: "real \<Rightarrow> real list \<Rightarrow> real list" where
  "cummax_from m [] = []"
| "cummax_from m (x # xs) = max m x # cummax_from (max m x) xs"

definition cummax :: "real list \<Rightarrow> real list" where
  "cummax xs = (case xs of [] \<Rightarrow> [] | x # rest \<Rightarrow> x # cummax_from x rest)"

definition mean :: "real list \<Rightarrow> real" where
  "mean xs = sum_list xs / real (length xs)"

definition std_ddof1 :: "real list \<Rightarrow> fl" where
  "std_ddof1 xs =
     (if length xs < 2 then None
      else Some (sqrt (sum_list (map (\<lambda>x. (x - mean xs)\<^sup>2) xs) / real (length xs - 1))))"

text \<open>\<open>drawdown.min()\<close> skips NaN, and is NaN when nothing is left.\<close>

definition nanmin :: "fl list \<Rightarrow> fl" where
  "nanmin xs = (case List.map_filter (\<lambda>x. x) xs of [] \<Rightarrow> None | y # ys \<Rightarrow> Some (fold min ys y))"

text \<open>
  \<open>x ** y\<close> on doubles, for the exponents that occur: \<open>1 / n_years\<close> is
  \<open>365.25 / days\<close> with a whole number of days, which is positive and never a whole
  number, so a negative base gives NaN.
\<close>

definition float_pow :: "real \<Rightarrow> real \<Rightarrow> fl" where
  "float_pow x y = (if x < 0 then None else Some (x powr y))"

record metrics =
  cagr :: fl
  cumulative_return :: real
  volatility :: fl
  sharpe_ratio :: fl
  max_drawdown :: fl
  calmar_ratio :: fl

text \<open>
  Lines 97 to 128. An empty result series returns an empty table (\<open>None\<close>). The
  comparison \<open>volatility != 0\<close> is true of NaN, and so is \<open>max_drawdown != 0\<close>.
\<close>

definition calculate_performance_metrics :: "series \<Rightarrow> metrics option" where
  "calculate_performance_metrics results =
     (if length results = 0 then None
      else
        let daily = map snd results;
            equity_curve = cumprod 1 (map (\<lambda>r. 1 + r) daily);
            total_return = last equity_curve - 1;
            n_years = real_of_int (fst (last results) - fst (hd results)) / 365.25;
            cagr = (if n_years > 0
                    then fsub (float_pow (last equity_curve) (1 / n_years)) (Some 1)
                    else None);
            volatility = fmul (std_ddof1 daily) (Some (sqrt 252));
            sharpe_ratio = (if volatility \<noteq> Some 0
                            then fdiv (Some (mean daily * 252))
                                      (fmul (std_ddof1 daily) (Some (sqrt 252)))
                            else None);
            rolling_max = cummax equity_curve;
            drawdown = map2 (\<lambda>e m. fsub (fdiv (Some e) (Some m)) (Some 1))
                            equity_curve rolling_max;
            max_drawdown = nanmin drawdown;
            calmar_ratio = (if max_drawdown \<noteq> Some 0
                            then fdiv cagr (map_option abs max_drawdown)
                            else None)
        in Some \<lparr>cagr = cagr, cumulative_return = total_return, volatility = volatility,
                 sharpe_ratio = sharpe_ratio, max_drawdown = max_drawdown,
                 calmar_ratio = calmar_ratio\<rparr>)"

subsection \<open>A flat return series\<close>

lemma ex_flat: "calculate_performance_metrics [(0, 0), (1, 0)]
   = Some \<lparr>cagr = Some 0, cumulative_return = 0, volatility = Some 0,
                 sharpe_ratio = None, max_drawdown = Some 0,
                 calmar_ratio = None\<rparr>"
  by (simp add: calculate_performance_metrics_def Let_def float_pow_def fsub_def fdiv_def fmul_def
     std_ddof1_def mean_def cummax_def nanmin_def List.map_filter_def)

lemma ex_single:
  "calculate_performance_metrics [(0, 1 / 100)]
     = Some \<lparr>cagr = None, cumulative_return = 1 / 100, volatility = None,
              sharpe_ratio = None, max_drawdown = Some 0, calmar_ratio = None\<rparr>"
  by (simp add: calculate_performance_metrics_def Let_def float_pow_def fsub_def fdiv_def
      fmul_def std_ddof1_def mean_def cummax_def nanmin_def List.map_filter_def)

lemma all_zero_daily:
  "\<forall>p \<in> set results. snd p = (0::real) \<Longrightarrow> map snd results = replicate (length results) 0"
  by (induction results) auto

lemma cumprod_ones: "cumprod 1 (replicate n 1) = replicate n 1"
  by (induction n) auto

lemma cummax_from_ones: "cummax_from 1 (replicate n 1) = replicate n 1"
  by (induction n) auto

lemma cummax_ones: "cummax (replicate n 1) = replicate n 1"
  by (cases n) (simp_all add: cummax_def cummax_from_ones)

lemma funpow_min_zero: "(min (0::real) ^^ n) 0 = 0"
  by (induction n) auto

lemma map_filter_Some_replicate:
  "List.map_filter (\<lambda>x. x) (replicate n (Some v)) = replicate n v"
  by (induction n) (auto simp: List.map_filter_def)

lemma nanmin_zeros: "0 < n \<Longrightarrow> nanmin (replicate n (Some 0)) = Some 0"
  by (cases n) (simp_all add: nanmin_def map_filter_Some_replicate funpow_min_zero)

lemma std_zeros: "2 \<le> n \<Longrightarrow> std_ddof1 (replicate n 0) = Some 0"
  by (simp add: std_ddof1_def mean_def sum_list_replicate)

lemma drawdown_ones:
  "map2 (\<lambda>e m. fsub (fdiv (Some e) (Some m)) (Some 1)) (replicate n 1) (replicate n (1::real))
     = replicate n (Some 0)"
  by (induction n) (auto simp: fsub_def fdiv_def)

lemma span_two_rows:
  fixes results :: "(int \<times> real) list"
  assumes "results \<noteq> []" and "fst (hd results) < fst (last results)"
  shows "2 \<le> length results"
proof (cases results)
  case Nil
  with assms show ?thesis by simp
next
  case (Cons p ps)
  with assms show ?thesis by (cases ps) auto
qed

lemma metrics_fields:
  assumes "calculate_performance_metrics results = Some m"
  shows "results \<noteq> []"
    and "cagr m = (if 0 < real_of_int (fst (last results) - fst (hd results)) / 365.25
                   then fsub (float_pow (last (cumprod 1 (map (\<lambda>r. 1 + r) (map snd results))))
                                (1 / (real_of_int (fst (last results) - fst (hd results)) / 365.25)))
                             (Some 1)
                   else None)"
    and "volatility m = fmul (std_ddof1 (map snd results)) (Some (sqrt 252))"
    and "sharpe_ratio m = (if volatility m \<noteq> Some 0
                            then fdiv (Some (mean (map snd results) * 252))
                                      (fmul (std_ddof1 (map snd results)) (Some (sqrt 252)))
                            else None)"
    and "max_drawdown m =
           nanmin (map2 (\<lambda>e m. fsub (fdiv (Some e) (Some m)) (Some 1))
                     (cumprod 1 (map (\<lambda>r. 1 + r) (map snd results)))
                     (cummax (cumprod 1 (map (\<lambda>r. 1 + r) (map snd results)))))"
  using assms
  by (auto simp: calculate_performance_metrics_def Let_def split: if_splits)

text \<open>
  C7, as the claim states it, fails: over two days of zero return the span is positive,
  the guard \<open>n_years > 0\<close> holds and CAGR is \<open>1 ** (1 / n_years) - 1 = 0\<close>, not NaN.
\<close>

theorem flat_cagr_is_zero:
  "map_option cagr (calculate_performance_metrics [(0, 0), (1, 0)]) = Some (Some 0)
   \<and> map_option cagr (calculate_performance_metrics [(0, 0), (1, 0)]) \<noteq> Some None"
  by (simp add: ex_flat)

text \<open>
  C7, amended. For a return series that is constantly zero over a date span of positive
  length the Sharpe ratio is NaN, CAGR is 0 and the maximum drawdown is 0. CAGR is NaN
  whenever the elapsed span is zero, and the Sharpe ratio is NaN whenever the volatility
  is exactly 0.
\<close>

theorem undefined_metrics:
  assumes "calculate_performance_metrics results = Some m"
  shows "((\<forall>p \<in> set results. snd p = 0) \<and> fst (hd results) < fst (last results)
            \<longrightarrow> sharpe_ratio m = None \<and> cagr m = Some 0 \<and> max_drawdown m = Some 0)
         \<and> (fst (last results) = fst (hd results) \<longrightarrow> cagr m = None)
         \<and> (volatility m = Some 0 \<longrightarrow> sharpe_ratio m = None)"
proof (intro conjI impI)
  note f = metrics_fields [OF assms]
  assume flat: "(\<forall>p \<in> set results. snd p = 0) \<and> fst (hd results) < fst (last results)"
  let ?n = "length results"
  from flat f(1) have n2: "2 \<le> ?n" using span_two_rows by blast
  from flat have daily: "map snd results = replicate ?n 0"
    using all_zero_daily by blast
  have equity: "cumprod 1 (map (\<lambda>r. 1 + r) (map snd results)) = replicate ?n 1"
    unfolding daily by (simp add: cumprod_ones)
  have last1: "last (replicate ?n (1::real)) = 1"
    using n2 by (cases ?n) simp_all
  have years: "0 < real_of_int (fst (last results) - fst (hd results)) / 365.25"
    using flat by simp
  have vol: "volatility m = Some 0"
    unfolding f(3) daily using n2 by (simp add: std_zeros fmul_def)
  show "sharpe_ratio m = None"
    using vol by (simp add: f(4))
  show "cagr m = Some 0"
    unfolding f(2) equity last1 using years by (simp add: float_pow_def fsub_def)
  show "max_drawdown m = Some 0"
    unfolding f(5) equity cummax_ones drawdown_ones using f(1) by (simp add: nanmin_zeros)
next
  assume "fst (last results) = fst (hd results)"
  then show "cagr m = None"
    by (simp add: metrics_fields(2) [OF assms])
next
  assume "volatility m = Some 0"
  then show "sharpe_ratio m = None"
    by (simp add: metrics_fields(4) [OF assms])
qed

theorem undefined_metrics_witness:
  "map snd [(0::int, 0::real), (1, 0)] = [0, 0]
   \<and> fst (hd [(0::int, 0::real), (1, 0)]) < fst (last [(0::int, 0::real), (1, 0)])
   \<and> map_option sharpe_ratio (calculate_performance_metrics [(0, 0), (1, 0)]) = Some None
   \<and> map_option max_drawdown (calculate_performance_metrics [(0, 0), (1, 0)]) = Some (Some 0)
   \<and> map_option volatility (calculate_performance_metrics [(0, 0), (1, 0)]) = Some (Some 0)
   \<and> fst (last [(0::int, 1 / 100 :: real)]) = fst (hd [(0::int, 1 / 100 :: real)])
   \<and> map_option cagr (calculate_performance_metrics [(0, 1 / 100)]) = Some None"
  using undefined_metrics [OF ex_flat] undefined_metrics [OF ex_single]
  by (simp add: ex_flat ex_single)

section \<open>The prediction engine (modeling.py)\<close>

text \<open>
  The classifier is scikit-learn's \<open>RandomForestClassifier\<close> with a fixed
  \<open>random_state\<close>, a library outside the repository: it enters as a parameter, a pair
  of \<open>fit\<close> (from the training features and labels to a model) and
  \<open>predict_proba\<close> (the probability of the positive class for one feature row;
  \<open>None\<close> when the call raises, which line 125 catches). The walk of lines 93 to 127
  comes first, on the clean rows of one asset; the selection of the features and of the
  clean rows from the data set (lines 33 to 47 and 69 to 91) follows.
\<close>

record 'm classifier =
  fit :: "fl list list \<Rightarrow> fl list \<Rightarrow> 'm"
  predict_proba :: "'m \<Rightarrow> fl list \<Rightarrow> real option"

text \<open>
  \<open>WalkForwardModel.__init__\<close>: \<open>x or default\<close> takes the default of config.py for
  \<open>None\<close> and for 0. The three settings are taken not to be negative.
\<close>

record walk_forward_model =
  train_window :: nat
  retrain_every :: nat
  min_train_window :: nat

definition init_walk_forward_model :: "nat option \<Rightarrow> nat option \<Rightarrow> nat option \<Rightarrow> walk_forward_model" where
  "init_walk_forward_model tw re mtw =
     \<lparr>train_window = (case tw of None \<Rightarrow> 252 | Some n \<Rightarrow> if n = 0 then 252 else n),
      retrain_every = (case re of None \<Rightarrow> 63 | Some n \<Rightarrow> if n = 0 then 63 else n),
      min_train_window = (case mtw of None \<Rightarrow> 126 | Some n \<Rightarrow> if n = 0 then 126 else n)\<rparr>"

text \<open>
  A row of \<open>clean_data\<close>: the date, the feature cells and the target cell. The state
  of the loop of lines 98 to 127: \<open>last_retrain_day\<close>, \<open>model\<close> and the predictions
  assigned so far, by date (\<open>self.models_by_asset[asset]\<close> always holds the same
  classifier as \<open>model\<close>).
\<close>

type_synonym clean_row = "int \<times> fl list \<times> fl"

record 'm walk_state =
  last_retrain_day :: int
  model :: "'m option"
  asset_predictions :: "int \<rightharpoonup> real"

text \<open>\<open>y_train.nunique()\<close>: the number of distinct values that are not NaN.\<close>

definition nunique :: "fl list \<Rightarrow> nat" where
  "nunique ys = length (remdups (List.map_filter (\<lambda>y. y) ys))"

text \<open>Lines 102 and 103: \<open>clean_data.iloc[max(0, i - train_window):i]\<close>.\<close>

definition history_window :: "walk_forward_model \<Rightarrow> clean_row list \<Rightarrow> nat \<Rightarrow> clean_row list" where
  "history_window cfg clean_data i =
     (let window_start = i - train_window cfg
      in take (i - window_start) (drop window_start clean_data))"

text \<open>The condition of line 107.\<close>

definition retrain_due :: "walk_forward_model \<Rightarrow> 'm walk_state \<Rightarrow> nat \<Rightarrow> bool" where
  "retrain_due cfg st i \<longleftrightarrow>
     last_retrain_day st = - 1 \<or> int i \<ge> last_retrain_day st + int (retrain_every cfg)
     \<or> model st = None"

text \<open>
  Lines 118 to 127: inference on the feature row of date \<open>i\<close>; a row with a NaN is
  skipped, an exception of \<open>predict_proba\<close> is caught and nothing is assigned.
\<close>

definition predict_at :: "'m classifier \<Rightarrow> clean_row list \<Rightarrow> 'm walk_state \<Rightarrow> nat \<Rightarrow> 'm walk_state" where
  "predict_at clf clean_data st i =
     (let current_row = fst (snd (clean_data ! i))
      in if None \<in> set current_row then st
         else case model st of
                None \<Rightarrow> st
              | Some m \<Rightarrow>
                  (case predict_proba clf m current_row of
                     None \<Rightarrow> st
                   | Some prediction \<Rightarrow>
                       st\<lparr>asset_predictions :=
                            (asset_predictions st)(fst (clean_data ! i) \<mapsto> prediction)\<rparr>))"

text \<open>
  One iteration of the loop, lines 102 to 127. Each \<open>continue\<close> of the source leaves
  the iteration with the state as it is.
\<close>

definition walk_step :: "'m classifier \<Rightarrow> walk_forward_model \<Rightarrow> clean_row list
    \<Rightarrow> 'm walk_state \<Rightarrow> nat \<Rightarrow> 'm walk_state" where
  "walk_step clf cfg clean_data st i =
     (let history = history_window cfg clean_data i
      in if length history < min_train_window cfg then st
         else if retrain_due cfg st i then
           (let X_train = map (\<lambda>r. fst (snd r)) history;
                y_train = map (\<lambda>r. snd (snd r)) history
            in if nunique y_train < 2 then st
               else predict_at clf clean_data
                      (st\<lparr>model := Some (fit clf X_train y_train),
                          last_retrain_day := int i\<rparr>) i)
         else predict_at clf clean_data st i)"

text \<open>
  The loop \<open>for i in range(self.min_train_window, len(clean_data))\<close>; \<open>walk_upto\<close>
  is the state before iteration \<open>k\<close>.
\<close>

definition walk_initial :: "'m walk_state" where
  "walk_initial = \<lparr>last_retrain_day = - 1, model = None, asset_predictions = Map.empty\<rparr>"

definition walk_upto :: "'m classifier \<Rightarrow> walk_forward_model \<Rightarrow> clean_row list \<Rightarrow> nat
    \<Rightarrow> 'm walk_state" where
  "walk_upto clf cfg clean_data k =
     foldl (walk_step clf cfg clean_data) walk_initial [min_train_window cfg..<k]"

definition walk_forward :: "'m classifier \<Rightarrow> walk_forward_model \<Rightarrow> clean_row list
    \<Rightarrow> 'm walk_state" where
  "walk_forward clf cfg clean_data = walk_upto clf cfg clean_data (length clean_data)"

text \<open>\<open>data.dropna(how='any')\<close>: the rows with no NaN among features and target.\<close>

definition dropna_any :: "clean_row list \<Rightarrow> clean_row list" where
  "dropna_any rows = filter (\<lambda>r. snd (snd r) \<noteq> None \<and> None \<notin> set (fst (snd r))) rows"

text \<open>
  \<open>_build_fallback_series\<close> with the constants of config.py (lookback 63, 0.58 and
  0.42); \<open>None\<close> stands for an asset without a price column. The comparison
  \<open>momentum > 0\<close> is false of NaN and true of plus infinity.
\<close>

definition build_fallback_series :: "fl list option \<Rightarrow> nat \<Rightarrow> real list" where
  "build_fallback_series asset_prices n =
     (case asset_prices of
        None \<Rightarrow> replicate n 0.5
      | Some col \<Rightarrow>
          map (\<lambda>momentum. case momentum of [m] \<Rightarrow> if ieee_positive m then 0.58 else 0.42
                                           | _ \<Rightarrow> 0.42)
              (pct_change_ieee 63 (map (\<lambda>p. [p]) col)))"

text \<open>
  Lines 82 to 136 for one asset, given its feature rows and target over the index of the
  data set and its price column: walk forward on the clean rows, then every date left
  without a prediction takes the fallback value.
\<close>

definition generate_predictions_for_asset :: "'m classifier \<Rightarrow> walk_forward_model \<Rightarrow> int list
    \<Rightarrow> (fl list \<times> fl) list \<Rightarrow> fl list option \<Rightarrow> real list" where
  "generate_predictions_for_asset clf cfg index data asset_prices =
     (let clean_data = dropna_any (zip index data);
          fallback_series = build_fallback_series asset_prices (length index)
      in if length clean_data < min_train_window cfg then fallback_series
         else
           let emitted = asset_predictions (walk_forward clf cfg clean_data)
           in map2 (\<lambda>d fb. case emitted d of Some p \<Rightarrow> p | None \<Rightarrow> fb) index fallback_series)"

text \<open>
  \<open>str.startswith\<close> and \<open>str.endswith\<close>, the assets of
  \<open>config.ASSET_UNIVERSE\<close> in the order of the dictionary, and the macro columns of
  lines 35 to 37.
\<close>

definition startswith :: "string \<Rightarrow> string \<Rightarrow> bool" where
  "startswith s p \<longleftrightarrow> take (length p) s = p"

definition endswith :: "string \<Rightarrow> string \<Rightarrow> bool" where
  "endswith s x \<longleftrightarrow> length x \<le> length s \<and> drop (length s - length x) s = x"

definition asset_universe :: "string list" where
  "asset_universe = [''IBB'', ''MRNA'', ''REGN'', ''AMGN'', ''GLD'', ''BND'', ''UUP'']"

definition macro_candidates :: "string list" where
  "macro_candidates = [''fed_rate'', ''fed_rate_diff'', ''vix'', ''dxy'', ''biotech_flow_proxy'',
     ''biotech_relative_strength_21d'', ''biotech_relative_strength_63d'',
     ''biotech_relative_strength_252d'']"

text \<open>
  \<open>_get_features_for_asset\<close>: the macro columns and the columns named after the
  asset, without the target columns, that the data set has; \<open>dropna(axis=1, how='all')\<close>
  then drops every column that is NaN on all dates.
\<close>

definition get_features_for_asset :: "frame \<Rightarrow> string \<Rightarrow> frame" where
  "get_features_for_asset full_df asset =
     (let asset_features = filter (\<lambda>col. startswith col asset \<and> \<not> endswith col ''_target'')
                                  (fr_columns full_df);
          feature_list = filter (\<lambda>col. col \<in> set (fr_columns full_df))
                                (macro_candidates @ asset_features);
          kept = filter (\<lambda>col. \<exists>v \<in> set (column full_df col). v \<noteq> None) feature_list
      in select_columns kept full_df)"

text \<open>
  Lines 83 and 84: \<open>data\<close>, the feature rows with the target column, before
  \<open>dropna\<close>; one row per date of the data set.
\<close>

definition asset_data :: "frame \<Rightarrow> string \<Rightarrow> (fl list \<times> fl) list" where
  "asset_data full_dataset asset =
     zip (fr_rows (get_features_for_asset full_dataset asset))
         (column full_dataset (asset @ ''_target''))"

text \<open>
  Lines 72 to 80: an asset without target column, or whose feature table is empty
  (\<open>X.empty\<close>: no column or no row), is skipped.
\<close>

definition skipped :: "frame \<Rightarrow> string \<Rightarrow> bool" where
  "skipped full_dataset asset \<longleftrightarrow>
     asset @ ''_target'' \<notin> set (fr_columns full_dataset)
     \<or> fr_columns (get_features_for_asset full_dataset asset) = []
     \<or> fr_rows (get_features_for_asset full_dataset asset) = []"

text \<open>
  The predictions that line 124 has assigned when the loop of an asset ends, by date: none
  for a skipped asset and none when lines 86 to 91 take the fallback for the whole asset.
\<close>

definition emitted_predictions :: "'m classifier \<Rightarrow> walk_forward_model \<Rightarrow> frame \<Rightarrow> string
    \<Rightarrow> int \<rightharpoonup> real" where
  "emitted_predictions clf cfg full_dataset asset =
     (let clean_data = dropna_any (zip (fr_index full_dataset) (asset_data full_dataset asset))
      in if skipped full_dataset asset \<or> length clean_data < min_train_window cfg then Map.empty
         else asset_predictions (walk_forward clf cfg clean_data))"

text \<open>
  The body of the loop over the assets (lines 69 to 136): the series stored in
  \<open>all_predictions\<close>, or \<open>None\<close> for a skipped asset.
\<close>

definition predictions_of_asset :: "'m classifier \<Rightarrow> walk_forward_model \<Rightarrow> frame \<Rightarrow> string
    \<Rightarrow> real list option" where
  "predictions_of_asset clf cfg full_dataset asset =
     (if skipped full_dataset asset then None
      else Some (generate_predictions_for_asset clf cfg (fr_index full_dataset)
                   (asset_data full_dataset asset)
                   (if asset \<in> set (fr_columns full_dataset)
                    then Some (column full_dataset asset) else None)))"

text \<open>
  \<open>generate_predictions\<close>: one column per asset that was not skipped, over the
  dates of the data set.
\<close>

definition generate_predictions :: "'m classifier \<Rightarrow> walk_forward_model \<Rightarrow> frame \<Rightarrow> frame" where
  "generate_predictions clf cfg full_dataset =
     (let all_predictions =
            List.map_filter (\<lambda>asset. map_option (Pair asset)
                                       (predictions_of_asset clf cfg full_dataset asset))
                            asset_universe
      in \<lparr>fr_index = fr_index full_dataset,
          fr_columns = map fst all_predictions,
          fr_rows = map (\<lambda>t. map (\<lambda>(asset, series). Some (series ! t)) all_predictions)
                        [0..<length (fr_index full_dataset)]\<rparr>)"

subsection \<open>A concrete classifier and small data sets\<close>

text \<open>
  To run the walk on concrete data the classifier parameter is instantiated with a
  1-nearest-neighbour classifier: \<open>fit\<close> stores the training rows and
  \<open>predict_proba\<close> is 1 when the label of the closest (L1) training row is 1, else 0.
\<close>

definition l1_distance :: "fl list \<Rightarrow> fl list \<Rightarrow> real" where
  "l1_distance a b = sum_list (map2 (\<lambda>x y. \<bar>fillna 0 x - fillna 0 y\<bar>) a b)"

fun nearest_label :: "fl list \<Rightarrow> (fl list \<times> fl) \<Rightarrow> (fl list \<times> fl) list \<Rightarrow> fl" where
  "nearest_label row best [] = snd best"
| "nearest_label row best (c # cs) =
     (if l1_distance row (fst c) < l1_distance row (fst best)
      then nearest_label row c cs else nearest_label row best cs)"

definition nearest_neighbour :: "((fl list \<times> fl) list) classifier" where
  "nearest_neighbour =
     \<lparr>fit = (\<lambda>X y. zip X y),
      predict_proba = (\<lambda>m row. case m of [] \<Rightarrow> None
                         | c # cs \<Rightarrow> Some (if nearest_label row c cs = Some 1 then 1 else 0))\<rparr>"

text \<open>\<open>WalkForwardModel(train_window=2, retrain_every=1, min_train_window=2)\<close>\<close>

definition ex_wf :: walk_forward_model where
  "ex_wf = init_walk_forward_model (Some 2) (Some 1) (Some 2)"

text \<open>
  Clean rows with one feature: the window of day 3 (days 1 and 2) holds the single
  label 1.
\<close>

definition ex_rows4 :: "clean_row list" where
  "ex_rows4 = [(0, [Some 0], Some 0), (1, [Some 10], Some 1), (2, [Some 1], Some 1),
               (3, [Some 5], Some 1)]"

text \<open>
  Data sets for the asset IBB, whose price column is its one feature. In the first the
  label of day 2 is a parameter; the second has one more day, and a column
  \<open>IBB_y\<close> that is NaN before day 3 and a parameter on day 3.
\<close>

definition ex_label :: "fl \<Rightarrow> frame" where
  "ex_label lab = \<lparr>fr_index = [0, 1, 2], fr_columns = [''IBB'', ''IBB_target''],
     fr_rows = [[Some 1, Some 0], [Some 10, Some 1], [Some 2, lab]]\<rparr>"

definition ex_late :: "fl \<Rightarrow> fl \<Rightarrow> frame" where
  "ex_late lab y = \<lparr>fr_index = [0, 1, 2, 3], fr_columns = [''IBB'', ''IBB_y'', ''IBB_target''],
     fr_rows = [[Some 1, None, Some 0], [Some 10, None, Some 1], [Some 2, None, lab],
                [Some 3, y, Some 1]]\<rparr>"

text \<open>
  \<open>WalkForwardModel(train_window=20, retrain_every=1, min_train_window=20)\<close> and a
  data set of 21 days: ten days with price 1 and label 0, ten days with price 10 and
  label 1, and a last day whose price is a parameter.
\<close>

definition ex_wf20 :: walk_forward_model where
  "ex_wf20 = init_walk_forward_model (Some 20) (Some 1) (Some 20)"

definition ex_cluster :: "real \<Rightarrow> frame" where
  "ex_cluster v = \<lparr>fr_index = [0, 1, 2, 3, 4, 5, 6, 7, 8, 9, 10, 11, 12, 13, 14, 15, 16, 17, 18, 19, 20],
     fr_columns = [''IBB'', ''IBB_target''],
     fr_rows = [[Some 1, Some 0], [Some 1, Some 0], [Some 1, Some 0], [Some 1, Some 0],
                [Some 1, Some 0], [Some 1, Some 0], [Some 1, Some 0], [Some 1, Some 0],
                [Some 1, Some 0], [Some 1, Some 0], [Some 10, Some 1], [Some 10, Some 1],
                [Some 10, Some 1], [Some 10, Some 1], [Some 10, Some 1], [Some 10, Some 1],
                [Some 10, Some 1], [Some 10, Some 1], [Some 10, Some 1], [Some 10, Some 1],
                [Some v, Some 0]]\<rparr>"

lemmas walk_eval = walk_forward_def walk_upto_def ex_wf_def init_walk_forward_model_def
    walk_step_def history_window_def retrain_due_def walk_initial_def nunique_def List.map_filter_def
    predict_at_def nearest_neighbour_def l1_distance_def fillna_def upt_conv_Cons Let_def

subsection \<open>What a step of the walk depends on\<close>

lemma history_window_take:
  "history_window cfg clean_data i = drop (i - train_window cfg) (take i clean_data)"
  by (simp add: history_window_def Let_def drop_take)

lemma predict_at_cong:
  assumes "fst (r1 ! i) = fst (r2 ! i)" and "fst (snd (r1 ! i)) = fst (snd (r2 ! i))"
  shows "predict_at clf r1 st i = predict_at clf r2 st i"
  by (auto simp: predict_at_def Let_def assms split: option.splits)

lemma walk_step_cong:
  assumes "take i r1 = take i r2"
    and "fst (r1 ! i) = fst (r2 ! i)" and "fst (snd (r1 ! i)) = fst (snd (r2 ! i))"
  shows "walk_step clf cfg r1 st i = walk_step clf cfg r2 st i"
proof -
  have h: "history_window cfg r1 i = history_window cfg r2 i"
    by (simp add: history_window_take assms(1))
  have p: "\<And>s. predict_at clf r1 s i = predict_at clf r2 s i"
    by (rule predict_at_cong [OF assms(2,3)])
  show ?thesis
    by (simp only: walk_step_def h p)
qed

lemma walk_upto_Suc:
  "min_train_window cfg \<le> k \<Longrightarrow>
   walk_upto clf cfg rows (Suc k) = walk_step clf cfg rows (walk_upto clf cfg rows k) k"
  by (simp add: walk_upto_def)

lemma walk_upto_early:
  "k \<le> min_train_window cfg \<Longrightarrow> walk_upto clf cfg rows k = walk_initial"
  by (simp add: walk_upto_def)

lemma walk_upto_cong:
  "take k r1 = take k r2 \<Longrightarrow> k \<le> length r1 \<Longrightarrow> k \<le> length r2 \<Longrightarrow>
   walk_upto clf cfg r1 k = walk_upto clf cfg r2 k"
proof (induction k)
  case 0
  then show ?case by (simp add: walk_upto_def)
next
  case (Suc k)
  show ?case
  proof (cases "min_train_window cfg \<le> k")
    case False
    then show ?thesis by (simp add: walk_upto_early)
  next
    case True
    from Suc.prems have k1: "k < length r1" and k2: "k < length r2" by simp_all
    have tk: "take k r1 = take k r2"
      using Suc.prems(1) by (metis take_take min.cobounded1 min_def le_SucI le_refl)
    have row: "r1 ! k = r2 ! k"
      using Suc.prems(1) by (metis lessI nth_take)
    have "walk_upto clf cfg r1 k = walk_upto clf cfg r2 k"
      using Suc.IH [OF tk] k1 k2 by simp
    then show ?thesis
      using walk_step_cong [OF tk, of clf cfg] row True by (simp add: walk_upto_Suc)
  qed
qed

lemma predict_at_other_date:
  "d \<noteq> fst (rows ! i) \<Longrightarrow>
   asset_predictions (predict_at clf rows st i) d = asset_predictions st d"
  by (simp add: predict_at_def Let_def split: option.splits)

lemma walk_step_other_date:
  "d \<noteq> fst (rows ! i) \<Longrightarrow>
   asset_predictions (walk_step clf cfg rows st i) d = asset_predictions st d"
  by (simp add: walk_step_def Let_def predict_at_other_date)

lemma walk_steps_other_dates:
  "\<forall>j \<in> set js. fst (rows ! j) \<noteq> d \<Longrightarrow>
   asset_predictions (foldl (walk_step clf cfg rows) st js) d = asset_predictions st d"
proof (induction js arbitrary: st)
  case Nil
  then show ?case by simp
next
  case (Cons j js)
  then show ?case using walk_step_other_date [of d rows j clf cfg st] by auto
qed

lemma distinct_dates:
  assumes "distinct (map fst rows)" and "i < length rows" and "j < length rows" and "j \<noteq> i"
  shows "fst (rows ! j) \<noteq> fst (rows ! i)"
  using assms by (metis length_map nth_eq_iff_index_eq nth_map)

lemma upt_split: "m \<le> k \<Longrightarrow> k \<le> n \<Longrightarrow> [m..<n] = [m..<k] @ [k..<n]"
  by (metis le_Suc_ex upt_add_eq_append)

lemma walk_forward_at_date:
  assumes "distinct (map fst rows)" and "i < length rows" and "min_train_window cfg \<le> i"
  shows "asset_predictions (walk_forward clf cfg rows) (fst (rows ! i))
           = asset_predictions (walk_upto clf cfg rows (Suc i)) (fst (rows ! i))"
proof -
  have split: "[min_train_window cfg..<length rows]
                 = [min_train_window cfg..<Suc i] @ [Suc i..<length rows]"
    using upt_split [of "min_train_window cfg" "Suc i" "length rows"] assms(2,3) by simp
  have later: "\<forall>j \<in> set [Suc i..<length rows]. fst (rows ! j) \<noteq> fst (rows ! i)"
    using distinct_dates [OF assms(1,2)] by auto
  show ?thesis
    unfolding walk_forward_def walk_upto_def split foldl_append
    by (rule walk_steps_other_dates [OF later])
qed

lemma walk_upto_no_date:
  assumes "\<forall>j < k. fst (rows ! j) \<noteq> d"
  shows "asset_predictions (walk_upto clf cfg rows k) d = None"
proof -
  have "\<forall>j \<in> set [min_train_window cfg..<k]. fst (rows ! j) \<noteq> d"
    using assms by simp
  from walk_steps_other_dates [OF this, of clf cfg walk_initial] show ?thesis
    by (simp add: walk_upto_def walk_initial_def)
qed

lemma walk_forward_absent_date:
  assumes "\<forall>r \<in> set rows. fst r \<noteq> d"
  shows "asset_predictions (walk_forward clf cfg rows) d = None"
proof -
  have "\<forall>j < length rows. fst (rows ! j) \<noteq> d"
    using assms by simp
  from walk_upto_no_date [OF this] show ?thesis
    by (simp add: walk_forward_def)
qed

lemma walk_forward_early_date:
  assumes "distinct (map fst rows)" and "k < length rows" and "k < min_train_window cfg"
  shows "asset_predictions (walk_forward clf cfg rows) (fst (rows ! k)) = None"
proof -
  have "\<forall>j \<in> set [min_train_window cfg..<length rows]. fst (rows ! j) \<noteq> fst (rows ! k)"
    using distinct_dates [OF assms(1,2)] assms(3) by auto
  from walk_steps_other_dates [OF this, of clf cfg walk_initial] show ?thesis
    by (simp add: walk_forward_def walk_upto_def walk_initial_def)
qed

lemma gated_walk_at_date:
  assumes "distinct (map fst rows)" and "k < length rows"
  shows "(if length rows < min_train_window cfg then Map.empty
          else asset_predictions (walk_forward clf cfg rows)) (fst (rows ! k))
         = (if min_train_window cfg \<le> k
            then asset_predictions (walk_upto clf cfg rows (Suc k)) (fst (rows ! k))
            else None)"
proof (cases "min_train_window cfg \<le> k")
  case True
  with assms(2) have "\<not> length rows < min_train_window cfg" by simp
  with True walk_forward_at_date [OF assms True, of clf] show ?thesis by simp
next
  case False
  then have "k < min_train_window cfg" by simp
  from walk_forward_early_date [OF assms this, of clf] False show ?thesis by simp
qed

lemma walk_upto_Suc_cong:
  assumes "take k r1 = take k r2" and "k < length r1" and "k < length r2"
    and "fst (r1 ! k) = fst (r2 ! k)" and "fst (snd (r1 ! k)) = fst (snd (r2 ! k))"
    and "min_train_window cfg \<le> k"
  shows "walk_upto clf cfg r1 (Suc k) = walk_upto clf cfg r2 (Suc k)"
proof -
  have before: "walk_upto clf cfg r1 k = walk_upto clf cfg r2 k"
    using walk_upto_cong [OF assms(1)] assms(2,3) by simp
  show ?thesis
    using walk_step_cong [OF assms(1,4,5), of clf cfg] before assms(6)
    by (simp add: walk_upto_Suc)
qed

lemma gated_walk_cong:
  assumes "take k r1 = take k r2" and "k < length r1" and "k < length r2"
    and "fst (r1 ! k) = fst (r2 ! k)" and "fst (snd (r1 ! k)) = fst (snd (r2 ! k))"
    and "distinct (map fst r1)" and "distinct (map fst r2)"
  shows "(if length r1 < min_train_window cfg then Map.empty
          else asset_predictions (walk_forward clf cfg r1)) (fst (r1 ! k))
         = (if length r2 < min_train_window cfg then Map.empty
            else asset_predictions (walk_forward clf cfg r2)) (fst (r2 ! k))"
proof -
  have "min_train_window cfg \<le> k \<Longrightarrow>
        walk_upto clf cfg r1 (Suc k) = walk_upto clf cfg r2 (Suc k)"
    by (rule walk_upto_Suc_cong [OF assms(1-5)])
  then show ?thesis
    unfolding gated_walk_at_date [OF assms(6,2)] gated_walk_at_date [OF assms(7,3)]
    using assms(4) by simp
qed

lemma filter_take_nth:
  assumes "i < length xs" and "P (xs ! i)"
  shows "take (length (filter P (take i xs))) (filter P xs) = filter P (take i xs)"
    and "filter P xs ! length (filter P (take i xs)) = xs ! i"
    and "length (filter P (take i xs)) < length (filter P xs)"
proof -
  have "xs = take i xs @ xs ! i # drop (Suc i) xs"
    using assms(1) by (rule id_take_nth_drop)
  then have "filter P xs = filter P (take i xs @ xs ! i # drop (Suc i) xs)"
    by simp
  then have f: "filter P xs = filter P (take i xs) @ xs ! i # filter P (drop (Suc i) xs)"
    using assms(2) by simp
  show "take (length (filter P (take i xs))) (filter P xs) = filter P (take i xs)"
    by (subst f) simp
  show "filter P xs ! length (filter P (take i xs)) = xs ! i"
    by (subst f) (simp add: nth_append)
  show "length (filter P (take i xs)) < length (filter P xs)"
    by (subst f) simp
qed

lemma dropna_any_distinct:
  "distinct index \<Longrightarrow> distinct (map fst (dropna_any (zip index data)))"
proof -
  assume d: "distinct index"
  have "map fst (zip index data) = take (min (length index) (length data)) index"
    by (rule map_fst_zip_take)
  with d have "distinct (map fst (zip index data))" by simp
  then show ?thesis
    unfolding dropna_any_def by (rule distinct_map_filter)
qed

text \<open>The emission at the date of index position i, from the table of all rows.\<close>

lemma gated_walk_dropna_cong:
  fixes t1 t2 :: "clean_row list"
  assumes "take i t1 = take i t2" and "i < length t1" and "i < length t2"
    and "fst (t1 ! i) = fst (t2 ! i)" and "fst (snd (t1 ! i)) = fst (snd (t2 ! i))"
    and "snd (snd (t1 ! i)) \<noteq> None" and "snd (snd (t2 ! i)) \<noteq> None"
    and "distinct (map fst t1)" and "distinct (map fst t2)"
  shows "(if length (dropna_any t1) < min_train_window cfg then Map.empty
          else asset_predictions (walk_forward clf cfg (dropna_any t1))) (fst (t1 ! i))
         = (if length (dropna_any t2) < min_train_window cfg then Map.empty
            else asset_predictions (walk_forward clf cfg (dropna_any t2))) (fst (t2 ! i))"
proof -
  let ?P = "\<lambda>r :: clean_row. snd (snd r) \<noteq> None \<and> None \<notin> set (fst (snd r))"
  have clean: "dropna_any t1 = filter ?P t1" "dropna_any t2 = filter ?P t2"
    by (simp_all add: dropna_any_def)
  have d1: "distinct (map fst (filter ?P t1))" and d2: "distinct (map fst (filter ?P t2))"
    using assms(8,9) by (simp_all add: distinct_map_filter)
  show ?thesis
  proof (cases "?P (t1 ! i)")
    case True
    then have P1: "?P (t1 ! i)" .
    with assms(5,7) have P2: "?P (t2 ! i)" by simp
    let ?k = "length (filter ?P (take i t1))"
    have k2: "?k = length (filter ?P (take i t2))" by (simp add: assms(1))
    note f1 = filter_take_nth [of i t1 ?P, OF assms(2) P1]
    note f2 = filter_take_nth [of i t2 ?P, OF assms(3) P2]
    have tk: "take ?k (filter ?P t1) = take ?k (filter ?P t2)"
      using f1(1) f2(1) assms(1) by simp
    have n1: "filter ?P t1 ! ?k = t1 ! i" by (rule f1(2))
    have n2: "filter ?P t2 ! ?k = t2 ! i" using f2(2) k2 by simp
    have l1: "?k < length (filter ?P t1)" by (rule f1(3))
    have l2: "?k < length (filter ?P t2)" using f2(3) k2 by simp
    have "(if length (filter ?P t1) < min_train_window cfg then Map.empty
          else asset_predictions (walk_forward clf cfg (filter ?P t1))) (fst (filter ?P t1 ! ?k))
         = (if length (filter ?P t2) < min_train_window cfg then Map.empty
            else asset_predictions (walk_forward clf cfg (filter ?P t2))) (fst (filter ?P t2 ! ?k))"
      by (rule gated_walk_cong [OF tk l1 l2 _ _ d1 d2]) (simp_all only: n1 n2 assms(4,5))
    then show ?thesis
      by (simp only: clean n1 n2)
  next
    case False
    then have N1: "\<not> ?P (t1 ! i)" .
    with assms(5,6,7) have N2: "\<not> ?P (t2 ! i)" by simp
    have absent: "\<forall>r \<in> set (filter ?P t). fst r \<noteq> fst (t ! i)"
      if "distinct (map fst t)" and "i < length t" and "\<not> ?P (t ! i)" for t :: "clean_row list"
    proof
      fix r assume "r \<in> set (filter ?P t)"
      then have r: "r \<in> set t" and Pr: "?P r" by simp_all
      from r obtain j where j: "j < length t" and rj: "r = t ! j"
        by (auto simp: in_set_conv_nth)
      with Pr that(3) have "j \<noteq> i" by auto
      from distinct_dates [OF that(1,2) j this] rj show "fst r \<noteq> fst (t ! i)" by simp
    qed
    have "asset_predictions (walk_forward clf cfg (filter ?P t1)) (fst (t1 ! i)) = None"
      by (rule walk_forward_absent_date [OF absent [OF assms(8,2) N1]])
    moreover
    have "asset_predictions (walk_forward clf cfg (filter ?P t2)) (fst (t2 ! i)) = None"
      by (rule walk_forward_absent_date [OF absent [OF assms(9,3) N2]])
    ultimately show ?thesis
      by (simp add: clean)
  qed
qed

subsection \<open>From the data set to the clean rows\<close>

lemma length_pct_change_ieee: "length (pct_change_ieee n rows) = length rows"
  by (simp add: pct_change_ieee_def Let_def length_ffill)

lemma length_build_fallback_series:
  "length (build_fallback_series asset_prices n)
     = (case asset_prices of None \<Rightarrow> n | Some col \<Rightarrow> length col)"
  by (simp add: build_fallback_series_def length_pct_change_ieee split: option.splits)

lemma length_column: "length (column f c) = length (fr_rows f)"
  by (simp add: column_def)

lemma get_features_shape:
  "length (fr_rows (get_features_for_asset d asset)) = length (fr_rows d)"
  "uniform (length (fr_columns (get_features_for_asset d asset)))
           (fr_rows (get_features_for_asset d asset))"
proof -
  obtain kept where k: "get_features_for_asset d asset = select_columns kept d"
    by (simp add: get_features_for_asset_def Let_def)
  have cols: "fr_columns (select_columns kept d) = kept"
    by (simp add: select_columns_def)
  show "length (fr_rows (get_features_for_asset d asset)) = length (fr_rows d)"
    unfolding k by (rule select_columns_shape(1))
  show "uniform (length (fr_columns (get_features_for_asset d asset)))
           (fr_rows (get_features_for_asset d asset))"
    unfolding k cols by (rule select_columns_shape(2))
qed

lemma length_asset_data: "length (asset_data d asset) = length (fr_rows d)"
  by (simp add: asset_data_def get_features_shape(1) length_column)

lemma asset_data_nth:
  assumes "i < length (asset_data d asset)"
  shows "fst (asset_data d asset ! i) = fr_rows (get_features_for_asset d asset) ! i"
    and "snd (asset_data d asset ! i) = column d (asset @ ''_target'') ! i"
    and "length (fst (asset_data d asset ! i))
           = length (fr_columns (get_features_for_asset d asset))"
proof -
  from assms have i: "i < length (fr_rows d)" by (simp add: length_asset_data)
  then have ix: "i < length (fr_rows (get_features_for_asset d asset))"
    and ic: "i < length (column d (asset @ ''_target''))"
    by (simp_all add: get_features_shape(1) length_column)
  show f: "fst (asset_data d asset ! i) = fr_rows (get_features_for_asset d asset) ! i"
    using ix ic by (simp add: asset_data_def)
  show "snd (asset_data d asset ! i) = column d (asset @ ''_target'') ! i"
    using ix ic by (simp add: asset_data_def)
  show "length (fst (asset_data d asset ! i))
           = length (fr_columns (get_features_for_asset d asset))"
    unfolding f by (rule uniform_nth [OF get_features_shape(2) ix])
qed

lemma column_present:
  assumes "i < length (fr_rows f)" and "column f c ! i \<noteq> None"
  shows "c \<in> set (fr_columns f)"
proof -
  from assms have "map_of (zip (fr_columns f) (fr_rows f ! i)) c \<noteq> None"
    by (auto simp: column_def split: option.splits)
  then obtain v where "map_of (zip (fr_columns f) (fr_rows f ! i)) c = Some v"
    by auto
  then have "(c, v) \<in> set (zip (fr_columns f) (fr_rows f ! i))"
    by (rule map_of_SomeD)
  then show ?thesis by (rule set_zip_leftD)
qed

lemma not_skipped:
  assumes "i < length (asset_data d asset)" and "snd (asset_data d asset ! i) \<noteq> None"
  shows "skipped d asset \<longleftrightarrow> fst (asset_data d asset ! i) = []"
proof -
  from assms(1) have i: "i < length (fr_rows d)" by (simp add: length_asset_data)
  have target: "asset @ ''_target'' \<in> set (fr_columns d)"
    using column_present [OF i] assms(2) asset_data_nth(2) [OF assms(1)] by simp
  have rows: "fr_rows (get_features_for_asset d asset) \<noteq> []"
    using i get_features_shape(1) [of d asset] by auto
  have "fst (asset_data d asset ! i) = [] \<longleftrightarrow> fr_columns (get_features_for_asset d asset) = []"
    using asset_data_nth(3) [OF assms(1)] by auto
  with target rows show ?thesis by (simp add: skipped_def)
qed

lemma generate_predictions_for_asset_nth:
  assumes "i < length index" and "i < length (build_fallback_series asset_prices (length index))"
    and "\<not> length (dropna_any (zip index data)) < min_train_window cfg"
    and "asset_predictions (walk_forward clf cfg (dropna_any (zip index data))) (index ! i) = Some p"
  shows "generate_predictions_for_asset clf cfg index data asset_prices ! i = p"
  using assms by (simp add: generate_predictions_for_asset_def Let_def)

lemma predictions_of_asset_emitted:
  assumes "emitted_predictions clf cfg d asset (fr_index d ! i) = Some p"
    and "i < length (fr_index d)" and "i < length (fr_rows d)"
  shows "map_option (\<lambda>series. series ! i) (predictions_of_asset clf cfg d asset) = Some p"
proof -
  let ?clean = "dropna_any (zip (fr_index d) (asset_data d asset))"
  let ?prices = "if asset \<in> set (fr_columns d) then Some (column d asset) else None"
  from assms(1) have ns: "\<not> skipped d asset"
    and gate: "\<not> length ?clean < min_train_window cfg"
    and em: "asset_predictions (walk_forward clf cfg ?clean) (fr_index d ! i) = Some p"
    by (auto simp: emitted_predictions_def Let_def split: if_splits)
  have fb: "i < length (build_fallback_series ?prices (length (fr_index d)))"
    using assms(2,3) by (simp add: length_build_fallback_series length_column)
  from generate_predictions_for_asset_nth [OF assms(2) fb gate em] ns
  show ?thesis by (simp add: predictions_of_asset_def)
qed

lemma map_of_map_filter_Pair:
  "map_of (List.map_filter (\<lambda>x. map_option (Pair x) (h x)) xs) a
     = (if a \<in> set xs then h a else None)"
proof (induction xs)
  case Nil
  then show ?case by (simp add: List.map_filter_simps)
next
  case (Cons x xs)
  show ?case
  proof (cases "h x")
    case None
    with Cons show ?thesis
      by (cases "a = x") (simp_all add: List.map_filter_simps)
  next
    case (Some s)
    with Cons show ?thesis
      by (cases "a = x") (simp_all add: List.map_filter_simps)
  qed
qed

lemma generate_predictions_column:
  assumes "asset \<in> set asset_universe" and "i < length (fr_index d)"
  shows "column (generate_predictions clf cfg d) asset ! i
           = map_option (\<lambda>series. series ! i) (predictions_of_asset clf cfg d asset)"
proof -
  let ?ap = "List.map_filter (\<lambda>a. map_option (Pair a) (predictions_of_asset clf cfg d a))
               asset_universe"
  have z: "zip (map fst ?ap) (map (\<lambda>(a, series). Some (series ! i)) ?ap)
             = map (\<lambda>(a, series). (a, Some (series ! i))) ?ap"
    by (simp add: zip_map_map zip_same_conv_map case_prod_beta)
  have look: "map_of (map (\<lambda>(a, series). (a, Some (series ! i))) ?ap) asset
                = map_option (\<lambda>series. Some (series ! i)) (map_of ?ap asset)"
    by (simp add: map_of_map)
  have ap: "map_of ?ap asset = predictions_of_asset clf cfg d asset"
    using assms(1) by (simp add: map_of_map_filter_Pair)
  show ?thesis
    using assms(2)
    by (simp add: column_def generate_predictions_def Let_def z look ap split: option.splits)
qed

lemma emitted_predictions_cong:
  assumes "take (Suc i) (fr_index d1) = take (Suc i) (fr_index d2)"
    and "take i (asset_data d1 asset) = take i (asset_data d2 asset)"
    and "fst (asset_data d1 asset ! i) = fst (asset_data d2 asset ! i)"
    and "snd (asset_data d1 asset ! i) \<noteq> None" and "snd (asset_data d2 asset ! i) \<noteq> None"
    and "i < length (fr_rows d1)" and "i < length (fr_rows d2)"
    and "i < length (fr_index d1)" and "i < length (fr_index d2)"
    and "distinct (fr_index d1)" and "distinct (fr_index d2)"
  shows "emitted_predictions clf cfg d1 asset (fr_index d1 ! i)
           = emitted_predictions clf cfg d2 asset (fr_index d2 ! i)"
proof -
  let ?t1 = "zip (fr_index d1) (asset_data d1 asset)"
  let ?t2 = "zip (fr_index d2) (asset_data d2 asset)"
  have a1: "i < length (asset_data d1 asset)" and a2: "i < length (asset_data d2 asset)"
    using assms(6,7) by (simp_all add: length_asset_data)
  have skip: "skipped d1 asset \<longleftrightarrow> skipped d2 asset"
    using not_skipped [OF a1 assms(4)] not_skipped [OF a2 assms(5)] assms(3) by simp
  have ti: "take i (fr_index d1) = take i (fr_index d2)"
    using assms(1) by (metis take_take min.cobounded1 min_def le_SucI le_refl)
  have date: "fr_index d1 ! i = fr_index d2 ! i"
    using assms(1) by (metis lessI nth_take)
  have tk: "take i ?t1 = take i ?t2"
    by (simp add: take_zip ti assms(2))
  have l1: "i < length ?t1" and l2: "i < length ?t2"
    using a1 a2 assms(8,9) by simp_all
  have n1: "?t1 ! i = (fr_index d1 ! i, asset_data d1 asset ! i)"
    using a1 assms(8) by simp
  have n2: "?t2 ! i = (fr_index d2 ! i, asset_data d2 asset ! i)"
    using a2 assms(9) by simp
  have dd1: "distinct (map fst ?t1)" and dd2: "distinct (map fst ?t2)"
    using assms(10,11) by (simp_all add: map_fst_zip_take)
  have "(if length (dropna_any ?t1) < min_train_window cfg then Map.empty
          else asset_predictions (walk_forward clf cfg (dropna_any ?t1))) (fst (?t1 ! i))
         = (if length (dropna_any ?t2) < min_train_window cfg then Map.empty
            else asset_predictions (walk_forward clf cfg (dropna_any ?t2))) (fst (?t2 ! i))"
    by (rule gated_walk_dropna_cong [OF tk l1 l2 _ _ _ _ dd1 dd2])
       (simp_all only: n1 n2 fst_conv snd_conv date assms(3,4,5) not_False_eq_True)
  then show ?thesis
    using skip by (auto simp: emitted_predictions_def Let_def n1 n2 split: if_splits)
qed

subsection \<open>The example data sets\<close>

lemma short_fallback:
  assumes "length col \<le> 63"
  shows "build_fallback_series (Some col) n = replicate (length col) (21 / 50)"
proof -
  let ?rows = "map (\<lambda>p. [p]) col"
  have len: "length (ffill ?rows) = length col" by (simp add: length_ffill)
  have u: "uniform 1 (ffill ?rows)"
    by (rule uniform_ffill) (simp add: uniform_def)
  have row: "(if t < 63 then map (\<lambda>_. NotANumber) (ffill ?rows ! t)
              else map2 ieee_change (ffill ?rows ! t) (ffill ?rows ! (t - 63))) = [NotANumber]"
    if "t < length col" for t
  proof -
    from that assms have t: "t < 63" by simp
    from that len have "length (ffill ?rows ! t) = 1"
      using uniform_nth [OF u] by simp
    then obtain x where "ffill ?rows ! t = [x]"
      by (cases "ffill ?rows ! t") simp_all
    with t show ?thesis by simp
  qed
  have "pct_change_ieee 63 ?rows = map (\<lambda>t. [NotANumber]) [0..<length col]"
    unfolding pct_change_ieee_def Let_def len
    by (rule map_cong [OF refl]) (simp add: row)
  then show ?thesis
    by (simp add: build_fallback_series_def ieee_positive_def map_replicate_const)
qed

lemmas features_eval = get_features_for_asset_def asset_data_def column_def select_columns_def
  startswith_def endswith_def macro_candidates_def skipped_def Let_def

lemma ex_label_data:
  "asset_data (ex_label lab) ''IBB'' = [([Some 1], Some 0), ([Some 10], Some 1), ([Some 2], lab)]"
  "skipped (ex_label lab) ''IBB'' = False"
  "column (ex_label lab) ''IBB'' = [Some 1, Some 10, Some 2]"
  "''IBB'' \<in> set (fr_columns (ex_label lab))"
  "fr_index (ex_label lab) = [0, 1, 2]"
  by (simp_all add: features_eval ex_label_def)

lemma ex_late_data_none:
  "asset_data (ex_late lab None) ''IBB''
     = [([Some 1], Some 0), ([Some 10], Some 1), ([Some 2], lab), ([Some 3], Some 1)]"
  "skipped (ex_late lab None) ''IBB'' = False"
  by (simp_all add: features_eval ex_late_def)

lemma ex_late_data_some:
  "asset_data (ex_late lab (Some 7)) ''IBB''
     = [([Some 1, None], Some 0), ([Some 10, None], Some 1), ([Some 2, None], lab),
        ([Some 3, Some 7], Some 1)]"
  "skipped (ex_late lab (Some 7)) ''IBB'' = False"
  by (simp_all add: features_eval ex_late_def)

lemma ex_late_fields:
  "column (ex_late lab y) ''IBB'' = [Some 1, Some 10, Some 2, Some 3]"
  "''IBB'' \<in> set (fr_columns (ex_late lab y))"
  "fr_index (ex_late lab y) = [0, 1, 2, 3]"
  by (simp_all add: features_eval ex_late_def)

lemma other_assets_skipped:
  "a \<in> set [''MRNA'', ''REGN'', ''AMGN'', ''GLD'', ''BND'', ''UUP''] \<Longrightarrow> skipped (ex_label lab) a"
  "a \<in> set [''MRNA'', ''REGN'', ''AMGN'', ''GLD'', ''BND'', ''UUP''] \<Longrightarrow> skipped (ex_late lab y) a"
  by (auto simp: skipped_def ex_label_def ex_late_def)

lemma ex_cluster_data:
  "asset_data (ex_cluster v) ''IBB''
     = [([Some 1], Some 0), ([Some 1], Some 0), ([Some 1], Some 0), ([Some 1], Some 0),
         ([Some 1], Some 0), ([Some 1], Some 0), ([Some 1], Some 0), ([Some 1], Some 0),
         ([Some 1], Some 0), ([Some 1], Some 0), ([Some 10], Some 1), ([Some 10], Some 1),
         ([Some 10], Some 1), ([Some 10], Some 1), ([Some 10], Some 1), ([Some 10], Some 1),
         ([Some 10], Some 1), ([Some 10], Some 1), ([Some 10], Some 1), ([Some 10], Some 1),
         ([Some v], Some 0)]"
  "skipped (ex_cluster v) ''IBB'' = False"
  "''IBB'' \<in> set (fr_columns (ex_cluster v))"
  "fr_index (ex_cluster v) = [0, 1, 2, 3, 4, 5, 6, 7, 8, 9, 10, 11, 12, 13, 14, 15, 16, 17, 18, 19, 20]"
  "length (column (ex_cluster v) ''IBB'') = 21"
  by (simp_all add: features_eval ex_cluster_def)

lemma ex_cluster_others:
  "a \<in> set [''MRNA'', ''REGN'', ''AMGN'', ''GLD'', ''BND'', ''UUP''] \<Longrightarrow> skipped (ex_cluster v) a"
  by (auto simp: skipped_def ex_cluster_def)

lemma ex_label_emitted:
  "emitted_predictions nearest_neighbour ex_wf (ex_label (Some 0)) ''IBB'' 2 = Some 0"
  "emitted_predictions nearest_neighbour ex_wf (ex_label None) ''IBB'' 2 = None"
  by (simp_all add: emitted_predictions_def ex_label_data dropna_any_def walk_eval)

lemma ex_late_emitted:
  "emitted_predictions nearest_neighbour ex_wf (ex_late (Some 0) None) ''IBB'' 2 = Some 0"
  "emitted_predictions nearest_neighbour ex_wf (ex_late (Some 1) None) ''IBB'' 2 = Some 0"
  "emitted_predictions nearest_neighbour ex_wf (ex_late (Some 0) (Some 7)) ''IBB'' 2 = None"
  by (simp_all add: emitted_predictions_def ex_late_data_none ex_late_data_some ex_late_fields
      dropna_any_def walk_eval)

lemma ex_cluster_emitted:
  "emitted_predictions nearest_neighbour ex_wf20 (ex_cluster 2) ''IBB'' 20 = Some 0"
  "emitted_predictions nearest_neighbour ex_wf20 (ex_cluster 9) ''IBB'' 20 = Some 1"
  by (simp_all add: emitted_predictions_def ex_cluster_data dropna_any_def walk_eval ex_wf20_def)

lemma generate_predictions_emitted:
  assumes "asset \<in> set asset_universe"
    and "emitted_predictions clf cfg d asset (fr_index d ! i) = Some p"
    and "i < length (fr_index d)" and "i < length (fr_rows d)"
  shows "column (generate_predictions clf cfg d) asset ! i = Some p"
  using generate_predictions_column [OF assms(1,3), of clf cfg]
    predictions_of_asset_emitted [OF assms(2-4)]
  by simp

lemmas predictions_eval = generate_predictions_def predictions_of_asset_def asset_universe_def
  List.map_filter_simps generate_predictions_for_asset_def dropna_any_def short_fallback
  walk_eval

lemma ex_label_predictions:
  "generate_predictions nearest_neighbour ex_wf (ex_label (Some 0))
     = \<lparr>fr_index = [0, 1, 2], fr_columns = [''IBB''],
        fr_rows = [[Some (21 / 50)], [Some (21 / 50)], [Some 0]]\<rparr>"
  "generate_predictions nearest_neighbour ex_wf (ex_label None)
     = \<lparr>fr_index = [0, 1, 2], fr_columns = [''IBB''],
        fr_rows = [[Some (21 / 50)], [Some (21 / 50)], [Some (21 / 50)]]\<rparr>"
  by (simp_all add: predictions_eval ex_label_data other_assets_skipped)

lemma ex_late_predictions:
  "generate_predictions nearest_neighbour ex_wf (ex_late (Some 0) None)
     = \<lparr>fr_index = [0, 1, 2, 3], fr_columns = [''IBB''],
        fr_rows = [[Some (21 / 50)], [Some (21 / 50)], [Some 0], [Some 0]]\<rparr>"
  "generate_predictions nearest_neighbour ex_wf (ex_late (Some 0) (Some 7))
     = \<lparr>fr_index = [0, 1, 2, 3], fr_columns = [''IBB''],
        fr_rows = [[Some (21 / 50)], [Some (21 / 50)], [Some (21 / 50)], [Some (21 / 50)]]\<rparr>"
  by (simp_all add: predictions_eval ex_late_data_none ex_late_data_some ex_late_fields
      other_assets_skipped)

lemma ex_cluster_predictions:
  "column (generate_predictions nearest_neighbour ex_wf20 (ex_cluster 2)) ''IBB'' ! 20 = Some 0"
  "column (generate_predictions nearest_neighbour ex_wf20 (ex_cluster 9)) ''IBB'' ! 20 = Some 1"
proof -
  have u: "''IBB'' \<in> set asset_universe" by (simp add: asset_universe_def)
  have i: "20 < length (fr_index (ex_cluster v))" "20 < length (fr_rows (ex_cluster v))"
    "fr_index (ex_cluster v) ! 20 = 20" for v
    by (simp_all add: ex_cluster_def)
  show "column (generate_predictions nearest_neighbour ex_wf20 (ex_cluster 2)) ''IBB'' ! 20 = Some 0"
    by (rule generate_predictions_emitted [OF u _ i(1,2)]) (simp add: i(3) ex_cluster_emitted)
  show "column (generate_predictions nearest_neighbour ex_wf20 (ex_cluster 9)) ''IBB'' ! 20 = Some 1"
    by (rule generate_predictions_emitted [OF u _ i(1,2)]) (simp add: i(3) ex_cluster_emitted)
qed

text \<open>
  What does not depend on the classifier: the data set without the label of day 2, and the
  one with a value of \<open>IBB_y\<close> on day 3, get no prediction for day 2 from the walk
  and the fallback value on every day; the other two get what the classifier gives for the
  feature row of day 2 after training on days 0 and 1.
\<close>

lemmas walk_eval_any = walk_forward_def walk_upto_def ex_wf_def init_walk_forward_model_def
    walk_step_def history_window_def retrain_due_def walk_initial_def nunique_def
    List.map_filter_def predict_at_def upt_conv_Cons Let_def

lemma ex_label_any_classifier:
  "emitted_predictions clf ex_wf (ex_label (Some 0)) ''IBB'' 2
     = predict_proba clf (fit clf [[Some 1], [Some 10]] [Some 0, Some 1]) [Some 2]"
  "emitted_predictions clf ex_wf (ex_label None) ''IBB'' 2 = None"
  by (simp_all add: emitted_predictions_def ex_label_data dropna_any_def walk_eval_any
      split: option.splits)

lemma ex_late_any_classifier:
  "emitted_predictions clf ex_wf (ex_late (Some 0) None) ''IBB'' 2
     = predict_proba clf (fit clf [[Some 1], [Some 10]] [Some 0, Some 1]) [Some 2]"
  "emitted_predictions clf ex_wf (ex_late (Some 0) (Some 7)) ''IBB'' 2 = None"
  by (simp_all add: emitted_predictions_def ex_late_data_none ex_late_data_some ex_late_fields
      dropna_any_def walk_eval_any split: option.splits)

lemma ex_fallback_any_classifier:
  "fr_rows (generate_predictions clf ex_wf (ex_label None))
     = [[Some (21 / 50)], [Some (21 / 50)], [Some (21 / 50)]]"
  "fr_rows (generate_predictions clf ex_wf (ex_late (Some 0) (Some 7)))
     = [[Some (21 / 50)], [Some (21 / 50)], [Some (21 / 50)], [Some (21 / 50)]]"
  by (simp_all add: generate_predictions_def predictions_of_asset_def asset_universe_def
      List.map_filter_simps generate_predictions_for_asset_def dropna_any_def short_fallback
      walk_eval_any ex_label_data ex_late_data_some ex_late_fields other_assets_skipped)

subsection \<open>No lookahead\<close>

text \<open>
  C1, as the claim states it, fails, in three ways. Each pair of data sets below agrees on
  every value at the dates strictly before \<open>i\<close>, and \<open>generate_predictions\<close>
  gives them different values at \<open>i\<close>. (1) The price of day 20 is 2 or 9: inference
  reads the feature row of the date it predicts for, and the twenty training rows form two
  clusters of ten, around the prices 1 and 10, with the labels 0 and 1. (2) The label of
  day 2 is 0 or NaN: \<open>dropna\<close> removes the row of day 2 when its label is missing,
  so no prediction is emitted for day 2, which takes the fallback value. (3) The column
  \<open>IBB_y\<close> is NaN on all days, or has a value on day 3 only: in the second case line
  46 keeps the column, \<open>dropna\<close> removes the rows of days 0 to 2, and day 2 takes
  the fallback value. In (2) and (3) the second data set gets no prediction from the model
  at \<open>i\<close> whatever the classifier is.
\<close>

theorem values_at_or_after_change_prediction:
  "take 20 (fr_rows (ex_cluster 2)) = take 20 (fr_rows (ex_cluster 9))
   \<and> fr_index (ex_cluster 2) = fr_index (ex_cluster 9)
   \<and> emitted_predictions nearest_neighbour ex_wf20 (ex_cluster 2) ''IBB'' 20 = Some 0
   \<and> emitted_predictions nearest_neighbour ex_wf20 (ex_cluster 9) ''IBB'' 20 = Some 1
   \<and> column (generate_predictions nearest_neighbour ex_wf20 (ex_cluster 2)) ''IBB'' ! 20 = Some 0
   \<and> column (generate_predictions nearest_neighbour ex_wf20 (ex_cluster 9)) ''IBB'' ! 20 = Some 1
   \<and> take 2 (fr_rows (ex_label (Some 0))) = take 2 (fr_rows (ex_label None))
   \<and> fr_index (ex_label (Some 0)) = fr_index (ex_label None)
   \<and> emitted_predictions nearest_neighbour ex_wf (ex_label (Some 0)) ''IBB'' 2 = Some 0
   \<and> emitted_predictions nearest_neighbour ex_wf (ex_label None) ''IBB'' 2 = None
   \<and> fr_rows (generate_predictions nearest_neighbour ex_wf (ex_label (Some 0)))
        = [[Some (21 / 50)], [Some (21 / 50)], [Some 0]]
   \<and> fr_rows (generate_predictions nearest_neighbour ex_wf (ex_label None))
        = [[Some (21 / 50)], [Some (21 / 50)], [Some (21 / 50)]]
   \<and> take 3 (fr_rows (ex_late (Some 0) None)) = take 3 (fr_rows (ex_late (Some 0) (Some 7)))
   \<and> fr_index (ex_late (Some 0) None) = fr_index (ex_late (Some 0) (Some 7))
   \<and> emitted_predictions nearest_neighbour ex_wf (ex_late (Some 0) None) ''IBB'' 2 = Some 0
   \<and> emitted_predictions nearest_neighbour ex_wf (ex_late (Some 0) (Some 7)) ''IBB'' 2 = None
   \<and> fr_rows (generate_predictions nearest_neighbour ex_wf (ex_late (Some 0) None))
        = [[Some (21 / 50)], [Some (21 / 50)], [Some 0], [Some 0]]
   \<and> fr_rows (generate_predictions nearest_neighbour ex_wf (ex_late (Some 0) (Some 7)))
        = [[Some (21 / 50)], [Some (21 / 50)], [Some (21 / 50)], [Some (21 / 50)]]"
proof -
  have rows: "take 20 (fr_rows (ex_cluster 2)) = take 20 (fr_rows (ex_cluster 9))"
    "fr_index (ex_cluster 2) = fr_index (ex_cluster 9)"
    "take 2 (fr_rows (ex_label (Some 0))) = take 2 (fr_rows (ex_label None))"
    "fr_index (ex_label (Some 0)) = fr_index (ex_label None)"
    "take 3 (fr_rows (ex_late (Some 0) None)) = take 3 (fr_rows (ex_late (Some 0) (Some 7)))"
    "fr_index (ex_late (Some 0) None) = fr_index (ex_late (Some 0) (Some 7))"
    by (simp_all add: ex_cluster_def ex_label_def ex_late_def)
  show ?thesis
    by (simp only: rows ex_cluster_emitted ex_cluster_predictions ex_label_emitted
        ex_label_predictions ex_late_emitted ex_late_predictions frame.simps simp_thms)
qed

text \<open>
  C1, amended. Take two data sets with the same dates up to \<open>i\<close>, whose tables for
  the asset (the feature columns that line 46 keeps, and the label) agree on every date
  strictly before \<open>i\<close> and on the features of \<open>i\<close>, and in both of which the
  label of \<open>i\<close> is present. Then the prediction emitted at \<open>i\<close> is the same
  for both, whatever the label of \<open>i\<close> and the values after \<open>i\<close> are; and
  when a prediction is emitted, it is the value of \<open>generate_predictions\<close> at
  \<open>i\<close> for both.
\<close>

theorem prediction_depends_on_past_and_current_features:
  assumes "asset \<in> set asset_universe"
    and "take (Suc i) (fr_index d1) = take (Suc i) (fr_index d2)"
    and "take i (asset_data d1 asset) = take i (asset_data d2 asset)"
    and "fst (asset_data d1 asset ! i) = fst (asset_data d2 asset ! i)"
    and "snd (asset_data d1 asset ! i) \<noteq> None" and "snd (asset_data d2 asset ! i) \<noteq> None"
    and "i < length (fr_rows d1)" and "i < length (fr_rows d2)"
    and "i < length (fr_index d1)" and "i < length (fr_index d2)"
    and "distinct (fr_index d1)" and "distinct (fr_index d2)"
  shows "emitted_predictions clf cfg d1 asset (fr_index d1 ! i)
           = emitted_predictions clf cfg d2 asset (fr_index d2 ! i)
         \<and> (\<forall>p. emitted_predictions clf cfg d1 asset (fr_index d1 ! i) = Some p \<longrightarrow>
                column (generate_predictions clf cfg d1) asset ! i = Some p
              \<and> column (generate_predictions clf cfg d2) asset ! i = Some p)"
proof -
  have same: "emitted_predictions clf cfg d1 asset (fr_index d1 ! i)
                = emitted_predictions clf cfg d2 asset (fr_index d2 ! i)"
    by (rule emitted_predictions_cong [OF assms(2-12)])
  have out: "column (generate_predictions clf cfg d) asset ! i = Some p"
    if "emitted_predictions clf cfg d asset (fr_index d ! i) = Some p"
      and "i < length (fr_index d)" and "i < length (fr_rows d)" for d p
    using generate_predictions_column [OF assms(1) that(2), of clf cfg]
      predictions_of_asset_emitted [OF that]
    by simp
  show ?thesis
    using same out [OF _ assms(9,7)] out [OF _ assms(10,8)] by simp
qed

theorem prediction_depends_on_past_and_current_features_witness:
  "''IBB'' \<in> set asset_universe
   \<and> take (Suc 2) (fr_index (ex_label (Some 0))) = take (Suc 2) (fr_index (ex_late (Some 1) None))
   \<and> take 2 (asset_data (ex_label (Some 0)) ''IBB'')
       = take 2 (asset_data (ex_late (Some 1) None) ''IBB'')
   \<and> fst (asset_data (ex_label (Some 0)) ''IBB'' ! 2)
       = fst (asset_data (ex_late (Some 1) None) ''IBB'' ! 2)
   \<and> snd (asset_data (ex_label (Some 0)) ''IBB'' ! 2) = Some 0
   \<and> snd (asset_data (ex_late (Some 1) None) ''IBB'' ! 2) = Some 1
   \<and> 2 < length (fr_rows (ex_label (Some 0))) \<and> 2 < length (fr_rows (ex_late (Some 1) None))
   \<and> 2 < length (fr_index (ex_label (Some 0))) \<and> 2 < length (fr_index (ex_late (Some 1) None))
   \<and> distinct (fr_index (ex_label (Some 0))) \<and> distinct (fr_index (ex_late (Some 1) None))
   \<and> emitted_predictions nearest_neighbour ex_wf (ex_label (Some 0)) ''IBB'' 2 = Some 0
   \<and> emitted_predictions nearest_neighbour ex_wf (ex_late (Some 1) None) ''IBB''
        (fr_index (ex_late (Some 1) None) ! 2) = Some 0
   \<and> column (generate_predictions nearest_neighbour ex_wf (ex_late (Some 1) None)) ''IBB'' ! 2
        = Some 0"
proof -
  have hyps: "''IBB'' \<in> set asset_universe"
    "take (Suc 2) (fr_index (ex_label (Some 0))) = take (Suc 2) (fr_index (ex_late (Some 1) None))"
    "take 2 (asset_data (ex_label (Some 0)) ''IBB'')
       = take 2 (asset_data (ex_late (Some 1) None) ''IBB'')"
    "fst (asset_data (ex_label (Some 0)) ''IBB'' ! 2)
       = fst (asset_data (ex_late (Some 1) None) ''IBB'' ! 2)"
    "snd (asset_data (ex_label (Some 0)) ''IBB'' ! 2) \<noteq> None"
    "snd (asset_data (ex_late (Some 1) None) ''IBB'' ! 2) \<noteq> None"
    "2 < length (fr_rows (ex_label (Some 0)))" "2 < length (fr_rows (ex_late (Some 1) None))"
    "2 < length (fr_index (ex_label (Some 0)))" "2 < length (fr_index (ex_late (Some 1) None))"
    "distinct (fr_index (ex_label (Some 0)))" "distinct (fr_index (ex_late (Some 1) None))"
    by (simp_all add: asset_universe_def ex_label_data ex_late_data_none ex_late_fields)
       (simp_all add: ex_label_def ex_late_def)
  have labels: "snd (asset_data (ex_label (Some 0)) ''IBB'' ! 2) = Some 0"
    "snd (asset_data (ex_late (Some 1) None) ''IBB'' ! 2) = Some 1"
    by (simp_all add: ex_label_data ex_late_data_none)
  have d1: "emitted_predictions nearest_neighbour ex_wf (ex_label (Some 0)) ''IBB''
              (fr_index (ex_label (Some 0)) ! 2) = Some 0"
    by (simp add: ex_label_data ex_label_emitted)
  note main = prediction_depends_on_past_and_current_features [OF hyps,
      of nearest_neighbour ex_wf]
  from main d1 have d2: "emitted_predictions nearest_neighbour ex_wf (ex_late (Some 1) None)
        ''IBB'' (fr_index (ex_late (Some 1) None) ! 2) = Some 0"
    by simp
  from main d1 have out:
    "column (generate_predictions nearest_neighbour ex_wf (ex_late (Some 1) None)) ''IBB'' ! 2
       = Some 0"
    by blast
  from hyps labels d2 out ex_label_emitted(1) show ?thesis by blast
qed

subsection \<open>A training window with a single class\<close>

text \<open>
  C6, as the claim states it, fails: on day 3 of the fourth table a retrain is due, the
  window holds one class, a trained model is held and the feature row is complete, yet no
  prediction is emitted for day 3 (\<open>continue\<close> on line 111 leaves the iteration, so
  the date takes the fallback value).
\<close>

theorem stale_model_is_not_used:
  "model (walk_upto nearest_neighbour ex_wf ex_rows4 3) \<noteq> None
   \<and> fst (snd (ex_rows4 ! 3)) = [Some 5]
   \<and> retrain_due ex_wf (walk_upto nearest_neighbour ex_wf ex_rows4 3) 3
   \<and> history_window ex_wf ex_rows4 3 = [(1, [Some 10], Some 1), (2, [Some 1], Some 1)]
   \<and> nunique [Some 1, Some 1] = 1
   \<and> asset_predictions (walk_forward nearest_neighbour ex_wf ex_rows4) 3 = None
   \<and> generate_predictions_for_asset nearest_neighbour ex_wf [0, 1, 2, 3] (map snd ex_rows4) None
       = [1 / 2, 1 / 2, 0, 1 / 2]"
  by (simp add: generate_predictions_for_asset_def dropna_any_def build_fallback_series_def
      walk_eval ex_rows4_def)

text \<open>
  C6, amended. Whenever a retrain is due at step \<open>i\<close> and the training window holds
  only one class of label, the step is skipped as a whole: the state after it is the state
  before it (the model held and the day of the last retrain are retained), and no
  prediction is emitted at \<open>i\<close>.
\<close>

theorem degenerate_window_skips_step:
  assumes "min_train_window cfg \<le> i" and "i < length clean_data"
    and "distinct (map fst clean_data)"
    and "min_train_window cfg \<le> length (history_window cfg clean_data i)"
    and "retrain_due cfg (walk_upto clf cfg clean_data i) i"
    and "nunique (map (\<lambda>r. snd (snd r)) (history_window cfg clean_data i)) < 2"
  shows "walk_upto clf cfg clean_data (Suc i) = walk_upto clf cfg clean_data i
         \<and> asset_predictions (walk_forward clf cfg clean_data) (fst (clean_data ! i)) = None"
proof -
  have skip: "walk_upto clf cfg clean_data (Suc i) = walk_upto clf cfg clean_data i"
    using assms(1,4,5,6) by (simp add: walk_upto_Suc walk_step_def Let_def)
  have earlier: "\<forall>j < i. fst (clean_data ! j) \<noteq> fst (clean_data ! i)"
    using distinct_dates [OF assms(3,2)] assms(2) by auto
  have "asset_predictions (walk_forward clf cfg clean_data) (fst (clean_data ! i))
          = asset_predictions (walk_upto clf cfg clean_data i) (fst (clean_data ! i))"
    using walk_forward_at_date [OF assms(3,2,1), of clf] skip by simp
  also have "\<dots> = None"
    using walk_upto_no_date [OF earlier] .
  finally show ?thesis using skip by simp
qed

theorem degenerate_window_skips_step_witness:
  "min_train_window ex_wf \<le> 3 \<and> 3 < length ex_rows4 \<and> distinct (map fst ex_rows4)
   \<and> min_train_window ex_wf \<le> length (history_window ex_wf ex_rows4 3)
   \<and> retrain_due ex_wf (walk_upto nearest_neighbour ex_wf ex_rows4 3) 3
   \<and> nunique (map (\<lambda>r. snd (snd r)) (history_window ex_wf ex_rows4 3)) < 2
   \<and> walk_upto nearest_neighbour ex_wf ex_rows4 (Suc 3) = walk_upto nearest_neighbour ex_wf ex_rows4 3
   \<and> asset_predictions (walk_forward nearest_neighbour ex_wf ex_rows4) (fst (ex_rows4 ! 3)) = None"
proof -
  have hyps: "min_train_window ex_wf \<le> 3" "3 < length ex_rows4" "distinct (map fst ex_rows4)"
    "min_train_window ex_wf \<le> length (history_window ex_wf ex_rows4 3)"
    "retrain_due ex_wf (walk_upto nearest_neighbour ex_wf ex_rows4 3) 3"
    "nunique (map (\<lambda>r. snd (snd r)) (history_window ex_wf ex_rows4 3)) < 2"
    by (simp_all add: walk_eval ex_rows4_def)
  from degenerate_window_skips_step [OF hyps] hyps show ?thesis by blast
qed

section \<open>The signal-to-weight translator (portfolio_construction.py)\<close>

text \<open>
  \<open>generate_target_portfolio\<close> is modelled for a prediction table and a price table
  that share their date axis: re-indexing one onto the index of the other (lines 56, 58)
  and the inner alignment of line 28 are then the identity, and rows are matched by
  position. The asset columns are the price columns that also are prediction columns, in
  the order of the price table; they are represented by a selection (one flag per price
  column), and \<open>df[asset_columns]\<close> reads the flagged cells of a row.
\<close>

text \<open>\<open>calculate_confidence_score\<close>: \<open>predictions_df - 0.5\<close>.\<close>

definition calculate_confidence_score :: "frame \<Rightarrow> frame" where
  "calculate_confidence_score predictions_df =
     predictions_df\<lparr>fr_rows := map (map (\<lambda>p. fsub p (Some 0.5))) (fr_rows predictions_df)\<rparr>"


text \<open>
  Line 48: \<open>[col for col in prices_df.columns if col in confidence_scores.columns]\<close>, as
  flags over the price columns.
\<close>

definition asset_mask :: "frame \<Rightarrow> frame \<Rightarrow> bool list" where
  "asset_mask confidence_scores prices_df =
     map (\<lambda>col. col \<in> set (fr_columns confidence_scores)) (fr_columns prices_df)"

definition gather :: "bool list \<Rightarrow> 'a list \<Rightarrow> 'a list" where
  "gather sel row = map snd (filter fst (zip sel row))"

text \<open>
  Writing the values \<open>new\<close> (one per selected column) into the selected columns of the
  row \<open>old\<close>, as \<open>df[asset_columns] = ...\<close> does; the other cells of \<open>old\<close> stay.
\<close>

fun assign_columns :: "bool list \<Rightarrow> 'a list \<Rightarrow> 'a list \<Rightarrow> 'a list" where
  "assign_columns (True # sel) (v # new) (w # old) = v # assign_columns sel new old"
| "assign_columns (False # sel) new (w # old) = w # assign_columns sel new old"
| "assign_columns sel new old = old"








text \<open>Line 71: \<open>raw_weights.where(raw_weights > 0, 0)\<close>, a comparison that is false of NaN.\<close>

definition positive_part :: "fl \<Rightarrow> real" where
  "positive_part x = (case x of None \<Rightarrow> 0 | Some r \<Rightarrow> if r > 0 then r else 0)"

text \<open>Lines 74 to 78: the positive weights over their row sum, a row sum of 0 replaced by 1.\<close>

definition normalised_row :: "fl list \<Rightarrow> real list" where
  "normalised_row raw_weights =
     (let positive_weights = map positive_part raw_weights;
          row_sum = sum_list positive_weights;
          row_sum' = (if row_sum = 0 then 1 else row_sum)
      in map (\<lambda>w. w / row_sum') positive_weights)"






definition count_true :: "bool list \<Rightarrow> nat" where
  "count_true sel = length (filter (\<lambda>b. b) sel)"



subsection \<open>Selecting and assigning columns\<close>


lemma gather_Cons [simp]:
  "gather (b # sel) (x # xs) = (if b then x # gather sel xs else gather sel xs)"
  by (simp add: gather_def)

lemma gather_Nil [simp]: "gather [] xs = []" "gather sel [] = []"
  by (simp_all add: gather_def)

lemma count_true_Cons [simp]: "count_true (b # sel) = (if b then Suc (count_true sel) else count_true sel)"
  by (simp add: count_true_def)

lemma count_true_Nil [simp]: "count_true [] = 0"
  by (simp add: count_true_def)

lemma length_assign_columns [simp]: "length (assign_columns sel new old) = length old"
  by (induction sel new old rule: assign_columns.induct) auto


lemma gather_not_assign_columns:
  "length old = length sel \<Longrightarrow> length new = count_true sel \<Longrightarrow>
   gather (map Not sel) (assign_columns sel new old) = gather (map Not sel) old"
  by (induction sel new old rule: assign_columns.induct) auto



subsection \<open>The rows of the allocation\<close>


lemma normalised_row_alt:
  "normalised_row raw =
     map (\<lambda>x. positive_part x
                / (if sum_list (map positive_part raw) = 0 then 1
                   else sum_list (map positive_part raw))) raw"
  by (simp add: normalised_row_def Let_def comp_def)


lemma length_normalised_row [simp]: "length (normalised_row raw) = length raw"
  by (simp add: normalised_row_alt)





lemma sort_key_upt_props:
  "distinct (sort_key f [0..<n])" "set (sort_key f [0..<n]) = {0..<n}"
  "length (sort_key f [0..<n]) = n"
  by simp_all
















subsection \<open>Shapes of the intermediate tables\<close>





lemma length_map2_map2: "length (map2 (map2 f) xs ys) = min (length xs) (length ys)"
  by simp







lemma length_asset_mask [simp]: "length (asset_mask c p) = length (fr_columns p)"
  by (simp add: asset_mask_def)

lemma asset_mask_confidence [simp]:
  "asset_mask (calculate_confidence_score predictions_df) prices_df
     = asset_mask predictions_df prices_df"
  by (simp add: asset_mask_def calculate_confidence_score_def)



lemma fdiv_None [simp]: "fdiv None v = None"
  by (simp add: fdiv_def)




subsection \<open>Every row of the weight matrix\<close>













subsection \<open>Neutral predictions\<close>















subsection \<open>Neutral predictions and a momentum signal\<close>






















end
